theory Spec2Isabelle
  imports Complex_Main "HOL-Library.Char_ord" "HOL-Library.List_Lexorder"
begin

section \<open>Values, strings and text extraction\<close>

text \<open>
  The payload of a record is a Python dictionary of JSON-like values. Dictionaries are
  association lists read with \<open>map_of\<close>; numbers are opaque to the store (it only
  ever asks whether a value is a dictionary or a string).
\<close>

datatype json =
    JNull
  | JBool bool
  | JNum int
  | JStr string
  | JArr "json list"
  | JObj "(string \<times> json) list"

text \<open>\<^verbatim>\<open>field.split(".")\<close>: every dot separates, empty parts are kept, the result is never empty.\<close>

fun split_on :: "char \<Rightarrow> string \<Rightarrow> string list" where
  "split_on c [] = [[]]"
| "split_on c (x # xs) =
     (if x = c then [] # split_on c xs
      else (case split_on c xs of [] \<Rightarrow> [[x]] | w # ws \<Rightarrow> (x # w) # ws))"

text \<open>
  \<^verbatim>\<open>str.strip()\<close> removes leading and trailing whitespace. Characters are code points
  below 256; the whitespace ones are tab, line feed, vertical tab, form feed, carriage return,
  the four separators 28 to 31, space, next line (133) and the no-break space (160).
\<close>

definition isspace :: "char \<Rightarrow> bool" where
  "isspace c = (of_char c \<in> set [9, 10, 11, 12, 13, 28, 29, 30, 31, 32, 133, 160 :: nat])"

definition strip :: "string \<Rightarrow> string" where
  "strip s = rev (dropWhile isspace (rev (dropWhile isspace s)))"

text \<open>\<^verbatim>\<open>sep.join(parts)\<close>\<close>

fun join :: "string \<Rightarrow> string list \<Rightarrow> string" where
  "join sep [] = []"
| "join sep [x] = x"
| "join sep (x # y # ys) = x @ sep @ join sep (y # ys)"

text \<open>
  The inner loop of \<^verbatim>\<open>get_text_at_path\<close>: \<open>current\<close> starts at the document and follows
  one part after the other; a part that is missing, or a current value that is no dictionary,
  sets \<open>current\<close> to \<^verbatim>\<open>None\<close> and leaves the loop.
\<close>

fun follow_parts :: "json option \<Rightarrow> string list \<Rightarrow> json option" where
  "follow_parts current [] = current"
| "follow_parts current (part # parts) =
     (case current of
        Some (JObj kvs) \<Rightarrow>
          (case map_of kvs part of
             Some v \<Rightarrow> follow_parts (Some v) parts
           | None \<Rightarrow> None)
      | _ \<Rightarrow> None)"

text \<open>
  The outer loop, with the list \<open>results\<close> it appends to: a field adds its stripped string
  when the path ends at a string that is not empty after stripping.
\<close>

fun collect_text :: "json \<Rightarrow> string list \<Rightarrow> string list \<Rightarrow> string list" where
  "collect_text doc [] results = results"
| "collect_text doc (field # fields) results =
     (case follow_parts (Some doc) (split_on CHR ''.'' field) of
        Some (JStr s) \<Rightarrow>
          (if strip s \<noteq> [] then collect_text doc fields (results @ [strip s])
           else collect_text doc fields results)
      | _ \<Rightarrow> collect_text doc fields results)"

definition get_text_at_path :: "json \<Rightarrow> string list \<Rightarrow> string" where
  "get_text_at_path doc fields = join '' '' (collect_text doc fields [])"

text \<open>
  The specification's reading of the same extraction, for comparison: descend the dotted
  path; a field contributes the string found there, and nothing when a segment is missing or
  the path ends at a non-string; contributions are joined with single spaces.
\<close>

fun descend :: "json \<Rightarrow> string list \<Rightarrow> json option" where
  "descend v [] = Some v"
| "descend (JObj kvs) (seg # segs) =
     (case map_of kvs seg of None \<Rightarrow> None | Some v \<Rightarrow> descend v segs)"
| "descend _ (seg # segs) = None"

definition string_at :: "json \<Rightarrow> string \<Rightarrow> string list" where
  "string_at doc field =
     (case descend doc (split_on CHR ''.'' field) of Some (JStr s) \<Rightarrow> [s] | _ \<Rightarrow> [])"

definition spec_text_at_path :: "json \<Rightarrow> string list \<Rightarrow> string" where
  "spec_text_at_path doc fields = join '' '' (concat (map (string_at doc) fields))"

definition trimmed_nonempty :: "string list \<Rightarrow> string list" where
  "trimmed_nonempty ss = filter (\<lambda>s. s \<noteq> []) (map strip ss)"

section \<open>Records, queries and the backend\<close>

text \<open>
  What a call can raise: \<open>OperationFailure\<close> is pymongo's error of that name (the one
  \<^verbatim>\<open>search\<close> catches), \<open>BackendError\<close> any other error of the backend, \<open>TypeError\<close> the
  call of an embedding function that cannot be called, \<open>OverflowError\<close> a duration or an
  instant out of range, \<open>ValueError\<close> a number that is not one and a negative skip.
\<close>

datatype failure = OperationFailure | BackendError | TypeError | OverflowError | ValueError

text \<open>
  An instant (\<^verbatim>\<open>datetime\<close>) is a number of microseconds on the UTC time line, from the
  first microsecond of the year 1 to the last of the year 9999. A duration
  (\<^verbatim>\<open>timedelta\<close>) is a number of microseconds of at most 999999999 days either way.
  Embedding vectors and relevance scores are opaque numbers: the store passes them on and
  never computes with them.
\<close>

type_synonym time = int
type_synonym vector = "int list"

definition datetime_min :: time where
  "datetime_min = - 62135596800000000"

definition datetime_max :: time where
  "datetime_max = 253402300799999999"

definition timedelta_min :: int where
  "timedelta_min = - 86399999913600000000"

definition timedelta_max :: int where
  "timedelta_max = 86399999999999999999"

definition minutes :: "int \<Rightarrow> int" where
  "minutes m = m * 60000000"

text \<open>
  A number as the caller passes it for a time-to-live: a Python integer, or a float, which is
  a rational number, an infinity or not a number.
\<close>

datatype number = IntNum int | FloatNum rat | FloatInf | FloatNegInf | FloatNaN

text \<open>The \<^verbatim>\<open>index\<close> argument of a write: a boolean or a list of fields.\<close>

datatype index_arg = IndexBool bool | IndexFields "string list"

text \<open>
  The \<^verbatim>\<open>ttl\<close> argument of a write: the sentinel \<^verbatim>\<open>NOT_PROVIDED\<close>, or a supplied value,
  which is \<^verbatim>\<open>None\<close> or a number of minutes.
\<close>

datatype ttl_arg = NOT_PROVIDED | Ttl "number option"

text \<open>
  A MongoDB document of the collection. A field the document may lack is an option;
  \<open>d_expiration\<close> tells a missing field (\<open>None\<close>) from a field holding null
  (\<open>Some None\<close>). \<open>d_score\<close> is the relevance metadata a query projects into its results;
  stored documents have none.
\<close>

record doc =
  d_id :: "nat option"
  d_namespace :: "string list"
  d_key :: string
  d_logical_key :: "string option"
  d_value :: json
  d_created :: "time option"
  d_expiration :: "time option option"
  d_indexed :: "index_arg option"
  d_embedding :: "vector option"
  d_score :: "int option"

text \<open>\<^verbatim>\<open>Item\<close> and its subclass \<^verbatim>\<open>SearchItem\<close> of the store contract.\<close>

record item =
  item_value :: json
  item_key :: string
  item_namespace :: "string list"
  created_at :: "time option"
  updated_at :: "time option"

record search_item = item +
  item_score :: "int option"

text \<open>
  The index configuration given at construction: a dictionary with optional entries. The
  entry \<^verbatim>\<open>embed\<close> is missing (\<open>None\<close>), or it holds a function (\<open>Some (Some f)\<close>), or it
  holds \<^verbatim>\<open>None\<close> or another object that cannot be called (\<open>Some None\<close>).
\<close>

record index_cfg =
  cfg_embed :: "(string \<Rightarrow> vector) option option"
  cfg_fields :: "string list option"
  cfg_index_name :: "string option"

text \<open>
  The attributes \<^verbatim>\<open>__init__\<close> sets on the store object. The embedding function is \<open>None\<close>
  when the attribute holds nothing that can be called.
\<close>

record store =
  ttl_support :: bool
  index_config :: "index_cfg option"
  semantic_enabled :: bool
  embedding_fn :: "(string \<Rightarrow> vector) option"
  index_name :: "string option"

text \<open>
  The state the operations change: the documents of the collection in their natural
  (insertion) order, the next object id the backend hands out, and how many UUIDs have been
  drawn and how many times the clock has been read so far.
\<close>

record world =
  collection :: "doc list"
  next_id :: nat
  uuid_draws :: nat
  clock_reads :: nat

text \<open>
  What the store does not decide: the \<open>n\<close>-th UUID drawn and the \<open>n\<close>-th clock reading, and
  the parts of the backend that are a black box to the store: the outcome of the
  \<^verbatim>\<open>$search\<close> (knnBeta) stage on the collection, the reordering a sort on relevance
  performs, whether \<^verbatim>\<open>value.<k>\<close> of a stored value equals a filter value, whether a
  document matches a \<^verbatim>\<open>$text\<close> search, and the outcome of a text query on the documents
  that match it (a failure, or these documents ordered by text score). The library's
  conversion of a float number of minutes into whole microseconds, which rounds in floating
  point, is taken from the environment as well.
\<close>

record env =
  uuid4 :: "nat \<Rightarrow> string"
  utcnow :: "nat \<Rightarrow> time"
  float_minutes :: "rat \<Rightarrow> int"
  knn_beta :: "string option \<Rightarrow> vector \<Rightarrow> int \<Rightarrow> doc list \<Rightarrow> failure + doc list"
  sort_score :: "doc list \<Rightarrow> doc list"
  value_field_is :: "string \<Rightarrow> json \<Rightarrow> json \<Rightarrow> bool"
  text_matches :: "string \<Rightarrow> doc \<Rightarrow> bool"
  sort_text_score :: "doc list \<Rightarrow> failure + doc list"

text \<open>
  A query dictionary is the conjunction of its entries: \<^verbatim>\<open>{"namespace": ns}\<close>,
  \<^verbatim>\<open>{"key": k}\<close>, \<^verbatim>\<open>{"namespace.i": part}\<close>, \<^verbatim>\<open>{"value.k": v}\<close>,
  \<^verbatim>\<open>{"$text": {"$search": q}}\<close> and \<^verbatim>\<open>{"_id": i}\<close>.
\<close>

datatype cond =
    NamespaceIs "string list"
  | KeyIs string
  | NamespaceAt nat string
  | ValueAt string json
  | TextSearch string
  | IdIs "nat option"

fun holds :: "env \<Rightarrow> doc \<Rightarrow> cond \<Rightarrow> bool" where
  "holds e d (NamespaceIs ns) = (d_namespace d = ns)"
| "holds e d (KeyIs k) = (d_key d = k)"
| "holds e d (NamespaceAt i part) = (i < length (d_namespace d) \<and> d_namespace d ! i = part)"
| "holds e d (ValueAt k v) = value_field_is e k v (d_value d)"
| "holds e d (TextSearch q) = text_matches e q d"
| "holds e d (IdIs i) = (d_id d = i)"

definition matches :: "env \<Rightarrow> cond list \<Rightarrow> doc \<Rightarrow> bool" where
  "matches e q d = list_all (holds e d) q"

text \<open>The driver calls on single documents.\<close>

definition find_one :: "env \<Rightarrow> cond list \<Rightarrow> world \<Rightarrow> doc option" where
  "find_one e q w = find (matches e q) (collection w)"

fun update_first :: "(doc \<Rightarrow> bool) \<Rightarrow> (doc \<Rightarrow> doc) \<Rightarrow> doc list \<Rightarrow> doc list" where
  "update_first P f [] = []"
| "update_first P f (d # ds) = (if P d then f d # ds else d # update_first P f ds)"

definition update_one :: "env \<Rightarrow> cond list \<Rightarrow> (doc \<Rightarrow> doc) \<Rightarrow> world \<Rightarrow> world" where
  "update_one e q f w = w\<lparr>collection := update_first (matches e q) f (collection w)\<rparr>"

fun remove_first :: "(doc \<Rightarrow> bool) \<Rightarrow> doc list \<Rightarrow> doc list" where
  "remove_first P [] = []"
| "remove_first P (d # ds) = (if P d then ds else d # remove_first P ds)"

definition delete_one :: "env \<Rightarrow> cond list \<Rightarrow> world \<Rightarrow> world" where
  "delete_one e q w = w\<lparr>collection := remove_first (matches e q) (collection w)\<rparr>"

definition insert_one :: "doc \<Rightarrow> world \<Rightarrow> world" where
  "insert_one d w =
     w\<lparr>collection := collection w @ [d\<lparr>d_id := Some (next_id w)\<rparr>],
       next_id := Suc (next_id w)\<rparr>"

text \<open>
  An inclusion projection on \<^verbatim>\<open>namespace\<close>, \<^verbatim>\<open>key\<close>, \<^verbatim>\<open>value\<close>, \<^verbatim>\<open>created\<close> and
  (when asked for) the relevance score: the result keeps these and \<^verbatim>\<open>_id\<close>, and no other
  field.
\<close>

definition project :: "bool \<Rightarrow> doc \<Rightarrow> doc" where
  "project with_score d =
     \<lparr>d_id = d_id d, d_namespace = d_namespace d, d_key = d_key d, d_logical_key = None,
      d_value = d_value d, d_created = d_created d, d_expiration = None, d_indexed = None,
      d_embedding = None, d_score = (if with_score then d_score d else None)\<rparr>"

text \<open>
  The aggregation pipeline \<^verbatim>\<open>search\<close> builds, stage by stage. The backend refuses a
  negative \<^verbatim>\<open>$skip\<close> and a \<^verbatim>\<open>$limit\<close> that is not positive with an operation failure.
\<close>

datatype stage =
    SearchStage "string option" vector int
  | MatchStage "cond list"
  | SortStage
  | SkipStage int
  | LimitStage int
  | ProjectStage

fun run_stage :: "env \<Rightarrow> stage \<Rightarrow> doc list \<Rightarrow> failure + doc list" where
  "run_stage e (SearchStage idx v k) docs = knn_beta e idx v k docs"
| "run_stage e (MatchStage q) docs = Inr (filter (matches e q) docs)"
| "run_stage e SortStage docs = Inr (sort_score e docs)"
| "run_stage e (SkipStage n) docs =
     (if n < 0 then Inl OperationFailure else Inr (drop (nat n) docs))"
| "run_stage e (LimitStage n) docs =
     (if n \<le> 0 then Inl OperationFailure else Inr (take (nat n) docs))"
| "run_stage e ProjectStage docs = Inr (map (project True) docs)"

fun run_pipeline :: "env \<Rightarrow> stage list \<Rightarrow> doc list \<Rightarrow> failure + doc list" where
  "run_pipeline e [] docs = Inr docs"
| "run_pipeline e (st # sts) docs =
     (case run_stage e st docs of
        Inl f \<Rightarrow> Inl f
      | Inr docs' \<Rightarrow> run_pipeline e sts docs')"

definition aggregate :: "env \<Rightarrow> world \<Rightarrow> stage list \<Rightarrow> failure + doc list" where
  "aggregate e w pipeline = run_pipeline e pipeline (collection w)"

text \<open>
  \<^verbatim>\<open>find(q, projection).sort(textScore).skip(offset).limit(n)\<close>. The driver raises a
  \<^verbatim>\<open>ValueError\<close> for a negative skip when the cursor is built, before any query runs. A
  cursor limit of 0 means no limit, and a negative one limits like its absolute value.
\<close>

definition cursor_limit :: "int \<Rightarrow> doc list \<Rightarrow> doc list" where
  "cursor_limit n docs = (if n = 0 then docs else take (nat \<bar>n\<bar>) docs)"

definition find_sorted :: "env \<Rightarrow> world \<Rightarrow> cond list \<Rightarrow> bool \<Rightarrow> int \<Rightarrow> int
    \<Rightarrow> failure + doc list" where
  "find_sorted e w q with_score offset n =
     (if offset < 0 then Inl ValueError
      else (case sort_text_score e (filter (matches e q) (collection w)) of
              Inl f \<Rightarrow> Inl f
            | Inr docs \<Rightarrow>
                Inr (map (project with_score) (cursor_limit n (drop (nat offset) docs)))))"

text \<open>
  \<^verbatim>\<open>distinct("namespace", q)\<close>: the field holds an array, and for an array the backend
  takes every element as a value of its own. The call returns the distinct segments of the
  namespaces of the matching documents, each one a string; their order does not matter,
  since \<^verbatim>\<open>list_namespaces\<close> sorts what it makes of them.
\<close>

definition distinct_namespace :: "env \<Rightarrow> cond list \<Rightarrow> world \<Rightarrow> string list" where
  "distinct_namespace e q w =
     remdups (concat (map d_namespace (filter (matches e q) (collection w))))"

text \<open>
  A Python slice \<^verbatim>\<open>xs[start:stop]\<close>: a negative bound counts from the end, and every
  bound is clamped to the list.
\<close>

definition slice_index :: "nat \<Rightarrow> int \<Rightarrow> nat" where
  "slice_index n i = (if i < 0 then nat (int n + i) else min n (nat i))"

definition py_slice :: "'a list \<Rightarrow> int option \<Rightarrow> int option \<Rightarrow> 'a list" where
  "py_slice xs start stop =
     (let lo = (case start of None \<Rightarrow> 0 | Some i \<Rightarrow> slice_index (length xs) i);
          hi = (case stop of None \<Rightarrow> length xs | Some j \<Rightarrow> slice_index (length xs) j)
      in take (hi - lo) (drop lo xs))"

section \<open>The store\<close>

subsection \<open>Construction\<close>

text \<open>
  \<^verbatim>\<open>__init__\<close>. The first argument is the failure, if any, with which the backend answers
  the creation of the client and of the indexes. Semantic search is switched on exactly when
  an index configuration with an \<^verbatim>\<open>embed\<close> entry is given, whatever the entry holds.
\<close>

definition init :: "failure option \<Rightarrow> bool \<Rightarrow> index_cfg option \<Rightarrow> failure + store" where
  "init backend_failure ttl index_cfg =
     (case backend_failure of
        Some f \<Rightarrow> Inl f
      | None \<Rightarrow>
          (case index_cfg of
             Some c \<Rightarrow>
               (case cfg_embed c of
                  Some entry \<Rightarrow>
                    Inr \<lparr>ttl_support = ttl, index_config = index_cfg, semantic_enabled = True,
                         embedding_fn = entry,
                         index_name =
                           Some (case cfg_index_name c of
                                   Some n \<Rightarrow> n
                                 | None \<Rightarrow> ''langchain_vsearch_index'')\<rparr>
                | None \<Rightarrow>
                    Inr \<lparr>ttl_support = ttl, index_config = index_cfg, semantic_enabled = False,
                         embedding_fn = None, index_name = None\<rparr>)
           | None \<Rightarrow>
               Inr \<lparr>ttl_support = ttl, index_config = index_cfg, semantic_enabled = False,
                    embedding_fn = None, index_name = None\<rparr>))"

subsection \<open>Queries on namespaces\<close>

definition namespace_query :: "string list \<Rightarrow> cond list" where
  "namespace_query ns = [NamespaceIs ns]"

definition namespace_prefix_query :: "string list \<Rightarrow> cond list" where
  "namespace_prefix_query namespace_prefix =
     map (\<lambda>(i, part). NamespaceAt i part) (enumerate 0 namespace_prefix)"

text \<open>
  \<^verbatim>\<open>timedelta(minutes=x)\<close>: exact for an integer, the library's rounding for a float; an
  infinity and a duration out of range raise \<^verbatim>\<open>OverflowError\<close>, not-a-number raises
  \<^verbatim>\<open>ValueError\<close>.
\<close>

definition in_timedelta_range :: "int \<Rightarrow> failure + int" where
  "in_timedelta_range us =
     (if timedelta_min \<le> us \<and> us \<le> timedelta_max then Inr us else Inl OverflowError)"

fun timedelta_minutes :: "env \<Rightarrow> number \<Rightarrow> failure + int" where
  "timedelta_minutes e (IntNum m) = in_timedelta_range (minutes m)"
| "timedelta_minutes e (FloatNum r) = in_timedelta_range (float_minutes e r)"
| "timedelta_minutes e FloatInf = Inl OverflowError"
| "timedelta_minutes e FloatNegInf = Inl OverflowError"
| "timedelta_minutes e FloatNaN = Inl ValueError"

text \<open>
  \<^verbatim>\<open>datetime.now(timezone.utc) + timedelta(minutes=ttl)\<close> at the \<open>n\<close>-th reading of the
  clock: the sum raises \<^verbatim>\<open>OverflowError\<close> when it is no instant.
\<close>

definition expiration_at :: "env \<Rightarrow> nat \<Rightarrow> number \<Rightarrow> failure + time" where
  "expiration_at e n ttl =
     (case timedelta_minutes e ttl of
        Inl f \<Rightarrow> Inl f
      | Inr delta \<Rightarrow>
          (if datetime_min \<le> utcnow e n + delta \<and> utcnow e n + delta \<le> datetime_max
           then Inr (utcnow e n + delta)
           else Inl OverflowError))"

text \<open>
  \<^verbatim>\<open>_compute_expiration\<close>: the clock is read only when a time-to-live is given.
\<close>

definition compute_expiration :: "env \<Rightarrow> world \<Rightarrow> number option
    \<Rightarrow> failure + world \<times> time option" where
  "compute_expiration e w ttl =
     (case ttl of
        None \<Rightarrow> Inr (w, None)
      | Some x \<Rightarrow>
          (case expiration_at e (clock_reads w) x of
             Inl f \<Rightarrow> Inl f
           | Inr t \<Rightarrow> Inr (w\<lparr>clock_reads := Suc (clock_reads w)\<rparr>, Some t)))"

subsection \<open>Reading one record\<close>

text \<open>\<^verbatim>\<open>doc.get("logical_key", doc["key"])\<close>\<close>

definition key_of :: "doc \<Rightarrow> string" where
  "key_of d = (case d_logical_key d of Some k \<Rightarrow> k | None \<Rightarrow> d_key d)"

text \<open>
  The truth value of \<^verbatim>\<open>doc.get("expiration")\<close>: a missing field and null are false, an
  instant is true.
\<close>

definition has_expiration :: "doc \<Rightarrow> bool" where
  "has_expiration d = (case d_expiration d of Some (Some t) \<Rightarrow> True | _ \<Rightarrow> False)"

definition to_item :: "doc \<Rightarrow> item" where
  "to_item d =
     \<lparr>item_value = d_value d, item_key = key_of d, item_namespace = d_namespace d,
      created_at = d_created d, updated_at = d_created d\<rparr>"

definition get :: "store \<Rightarrow> env \<Rightarrow> world \<Rightarrow> string list \<Rightarrow> string \<Rightarrow> bool option
    \<Rightarrow> failure + world \<times> item option" where
  "get s e w ns k refresh_ttl =
     (let q = namespace_query ns @ [KeyIs k] in
      case find_one e q w of
        None \<Rightarrow> Inr (w, None)
      | Some d \<Rightarrow>
          (if refresh_ttl = Some True \<and> ttl_support s \<and> has_expiration d then
             (case compute_expiration e w (Some (IntNum 10)) of
                Inl f \<Rightarrow> Inl f
              | Inr (w1, new_exp) \<Rightarrow>
                  (let w2 = update_one e q (\<lambda>x. x\<lparr>d_expiration := Some new_exp\<rparr>) w1;
                       d1 = d\<lparr>d_expiration := Some new_exp\<rparr>
                   in Inr (w2, Some (to_item d1))))
           else Inr (w, Some (to_item d))))"

definition delete :: "env \<Rightarrow> world \<Rightarrow> string list \<Rightarrow> string \<Rightarrow> world" where
  "delete e w ns k = delete_one e (namespace_query ns @ [KeyIs k]) w"

subsection \<open>Writing a record\<close>

text \<open>
  \<^verbatim>\<open>put\<close>: a fresh UUID is the storage key, the caller's key is the logical key. The clock
  is read once for \<^verbatim>\<open>created\<close> and once more inside \<^verbatim>\<open>_compute_expiration\<close>. The
  expiration is computed first, the embedding after it, the document is inserted last.
\<close>

text \<open>
  The fields the text of a write is taken from: the \<^verbatim>\<open>fields\<close> entry of the index
  configuration, and \<^verbatim>\<open>["$"]\<close> without one.
\<close>

definition configured_fields :: "store \<Rightarrow> string list" where
  "configured_fields s =
     (case index_config s of
        Some c \<Rightarrow> (case cfg_fields c of Some fs \<Rightarrow> fs | None \<Rightarrow> [''$''])
      | None \<Rightarrow> [''$''])"

definition put :: "store \<Rightarrow> env \<Rightarrow> world \<Rightarrow> string list \<Rightarrow> string \<Rightarrow> json
    \<Rightarrow> index_arg option \<Rightarrow> ttl_arg \<Rightarrow> failure + world" where
  "put s e w ns k v index ttl =
     (let unique_key = uuid4 e (uuid_draws w);
          w1 = w\<lparr>uuid_draws := Suc (uuid_draws w)\<rparr>;
          now = utcnow e (clock_reads w1);
          w2 = w1\<lparr>clock_reads := Suc (clock_reads w1)\<rparr>;
          d0 = \<lparr>d_id = None, d_namespace = ns, d_key = unique_key, d_logical_key = Some k,
                d_value = v, d_created = Some now, d_expiration = None, d_indexed = None,
                d_embedding = None, d_score = None\<rparr>
      in case (case ttl of
                 NOT_PROVIDED \<Rightarrow> Inr (w2, d0)
               | Ttl t \<Rightarrow>
                   (if ttl_support s then
                      (if t \<noteq> None then
                         (case compute_expiration e w2 t of
                            Inl f \<Rightarrow> Inl f
                          | Inr (w', x) \<Rightarrow> Inr (w', d0\<lparr>d_expiration := Some x\<rparr>))
                       else Inr (w2, d0\<lparr>d_expiration := Some None\<rparr>))
                    else Inr (w2, d0))) of
           Inl f \<Rightarrow> Inl f
         | Inr (w3, d1) \<Rightarrow>
             (let d2 = (if index \<noteq> None then d1\<lparr>d_indexed := index\<rparr> else d1)
              in if index \<noteq> Some (IndexBool False) \<and> semantic_enabled s then
                   (let text = get_text_at_path v (configured_fields s)
                    in if strip text \<noteq> [] then
                         (case embedding_fn s of
                            None \<Rightarrow> Inl TypeError
                          | Some emb \<Rightarrow>
                              Inr (insert_one (d2\<lparr>d_embedding := Some (emb text)\<rparr>) w3))
                       else Inr (insert_one d2 w3))
                 else Inr (insert_one d2 w3)))"

subsection \<open>Search\<close>

definition to_search_item :: "doc \<Rightarrow> search_item" where
  "to_search_item d =
     \<lparr>item_value = d_value d, item_key = key_of d, item_namespace = d_namespace d,
      created_at = d_created d, updated_at = d_created d, item_score = d_score d\<rparr>"

text \<open>The entries \<^verbatim>\<open>value.<k> = v\<close> a filter adds to a query.\<close>

definition filter_query :: "(string \<times> json) list option \<Rightarrow> cond list" where
  "filter_query flt =
     (case flt of
        None \<Rightarrow> []
      | Some kvs \<Rightarrow> map (\<lambda>(k, v). ValueAt k v) kvs)"

text \<open>\<^verbatim>\<open>if query:\<close> holds for a query string that is given and not empty.\<close>

definition text_query :: "string option \<Rightarrow> cond list" where
  "text_query query =
     (case query of
        None \<Rightarrow> []
      | Some q \<Rightarrow> (if q \<noteq> [] then [TextSearch q] else []))"

definition has_query :: "string option \<Rightarrow> bool" where
  "has_query query = (case query of None \<Rightarrow> False | Some q \<Rightarrow> q \<noteq> [])"

text \<open>
  The pipeline of the vector phase: the knnBeta stage asking for \<open>limit\<close> candidates, the
  match on the namespace prefix and the filter (left out when there is nothing to match),
  the sort, the paging and the projection.
\<close>

definition vector_pipeline :: "store \<Rightarrow> vector \<Rightarrow> string list \<Rightarrow> (string \<times> json) list option
    \<Rightarrow> int \<Rightarrow> int \<Rightarrow> stage list" where
  "vector_pipeline s query_vector namespace_prefix flt limit offset =
     (let ns_filter = namespace_prefix_query namespace_prefix @ filter_query flt
      in [SearchStage (index_name s) query_vector limit]
         @ (if ns_filter \<noteq> [] then [MatchStage ns_filter] else [])
         @ [SortStage, SkipStage offset, LimitStage limit, ProjectStage])"

text \<open>
  The loop over the documents of the vector phase: refresh the expiration when asked to and
  the document carries one, append the item, remember its key.
\<close>

fun vector_loop :: "store \<Rightarrow> env \<Rightarrow> bool option \<Rightarrow> doc list \<Rightarrow> world \<Rightarrow> search_item list
    \<Rightarrow> string set \<Rightarrow> failure + world \<times> search_item list \<times> string set" where
  "vector_loop s e refresh_ttl [] w results seen_keys = Inr (w, results, seen_keys)"
| "vector_loop s e refresh_ttl (d # docs) w results seen_keys =
     (if refresh_ttl = Some True \<and> ttl_support s \<and> has_expiration d then
        (case compute_expiration e w (Some (IntNum 10)) of
           Inl f \<Rightarrow> Inl f
         | Inr (w1, new_exp) \<Rightarrow>
             (let w2 = update_one e [IdIs (d_id d)] (\<lambda>x. x\<lparr>d_expiration := Some new_exp\<rparr>) w1;
                  d1 = d\<lparr>d_expiration := Some new_exp\<rparr>
              in vector_loop s e refresh_ttl docs w2 (results @ [to_search_item d1])
                   (insert (key_of d1) seen_keys)))
      else vector_loop s e refresh_ttl docs w (results @ [to_search_item d])
             (insert (key_of d) seen_keys))"

text \<open>
  The loop over the documents of the fallback text query: skip a key already seen, append
  the item otherwise, and stop once \<open>limit\<close> results are there.
\<close>

fun fallback_loop :: "int \<Rightarrow> doc list \<Rightarrow> search_item list \<Rightarrow> string set \<Rightarrow> search_item list" where
  "fallback_loop limit [] results seen_keys = results"
| "fallback_loop limit (d # docs) results seen_keys =
     (let key_val = key_of d in
      if key_val \<in> seen_keys then fallback_loop limit docs results seen_keys
      else if int (length (results @ [to_search_item d])) \<ge> limit
        then results @ [to_search_item d]
      else fallback_loop limit docs (results @ [to_search_item d]) (insert key_val seen_keys))"

text \<open>\<^verbatim>\<open>query or ""\<close>\<close>

definition query_or_empty :: "string option \<Rightarrow> string" where
  "query_or_empty query = (case query of Some q \<Rightarrow> q | None \<Rightarrow> [])"

text \<open>The query of the text search: namespace prefix, filter and, with a query string, the text match.\<close>

definition text_search_query :: "string list \<Rightarrow> (string \<times> json) list option \<Rightarrow> string option
    \<Rightarrow> cond list" where
  "text_search_query namespace_prefix flt query =
     namespace_prefix_query namespace_prefix @ filter_query flt @ text_query query"

text \<open>
  \<^verbatim>\<open>search\<close>. Only the aggregation stands inside the \<^verbatim>\<open>try\<close>: an operation failure
  there gives an empty list of documents, any other failure leaves the function, and so does
  every failure of the loop and of the fallback query.
\<close>

definition search :: "store \<Rightarrow> env \<Rightarrow> world \<Rightarrow> string list \<Rightarrow> string option
    \<Rightarrow> (string \<times> json) list option \<Rightarrow> int \<Rightarrow> int \<Rightarrow> bool option
    \<Rightarrow> failure + world \<times> search_item list" where
  "search s e w namespace_prefix query flt limit offset refresh_ttl =
     (if semantic_enabled s then
        (case embedding_fn s of
           None \<Rightarrow> Inl TypeError
         | Some emb \<Rightarrow>
             (let query_vector = emb (query_or_empty query);
                  pipeline = vector_pipeline s query_vector namespace_prefix flt limit offset
              in case (case aggregate e w pipeline of
                         Inl OperationFailure \<Rightarrow> Inr []
                       | Inl f \<Rightarrow> Inl f
                       | Inr docs \<Rightarrow> Inr docs) of
                   Inl f \<Rightarrow> Inl f
                 | Inr docs \<Rightarrow>
                     (case vector_loop s e refresh_ttl docs w [] {} of
                        Inl f \<Rightarrow> Inl f
                      | Inr (w1, results, seen_keys) \<Rightarrow>
                          (if int (length results) < limit then
                             (let remaining = limit - int (length results);
                                  fallback_q = text_search_query namespace_prefix flt query
                              in case find_sorted e w1 fallback_q (has_query query) offset
                                        remaining of
                                   Inl f \<Rightarrow> Inl f
                                 | Inr fallback_docs \<Rightarrow>
                                     Inr (w1, fallback_loop limit fallback_docs results
                                                seen_keys))
                           else Inr (w1, results)))))
      else
        (let q = text_search_query namespace_prefix flt query
         in case find_sorted e w q (has_query query) offset limit of
              Inl f \<Rightarrow> Inl f
            | Inr docs \<Rightarrow> Inr (w, map to_search_item docs)))"

subsection \<open>Listing namespaces\<close>

text \<open>
  \<^verbatim>\<open>tuple(ns)\<close> for an entry \<open>ns\<close> of the list \<^verbatim>\<open>distinct\<close> has returned: the entry is a
  string, and its tuple is the tuple of its characters, each a string of length one.
\<close>

definition tuple_of :: "string \<Rightarrow> string list" where
  "tuple_of ns = map (\<lambda>c. [c]) ns"

definition matches_suffix :: "string list \<Rightarrow> string \<Rightarrow> bool" where
  "matches_suffix suffix ns =
     (if length ns \<ge> length suffix
      then tuple_of (py_slice ns (Some (- int (length suffix))) None) = suffix
      else False)"

definition list_namespaces :: "env \<Rightarrow> world \<Rightarrow> string list option \<Rightarrow> string list option
    \<Rightarrow> int option \<Rightarrow> int \<Rightarrow> int \<Rightarrow> string list list" where
  "list_namespaces e w prefix suffix max_depth limit offset =
     (let q = (case prefix of
                 None \<Rightarrow> []
               | Some p \<Rightarrow> (if p \<noteq> [] then namespace_prefix_query p else []));
          namespaces = distinct_namespace e q w;
          namespaces1 =
            (case suffix of
               None \<Rightarrow> namespaces
             | Some sfx \<Rightarrow>
                 (if sfx \<noteq> [] then filter (matches_suffix sfx) namespaces else namespaces));
          namespaces2 =
            (case max_depth of
               None \<Rightarrow> namespaces1
             | Some depth \<Rightarrow> map (\<lambda>ns. py_slice ns None (Some depth)) namespaces1);
          unique_namespaces = sorted_list_of_set (set (map tuple_of namespaces2))
      in py_slice unique_namespaces (Some offset) (Some (offset + limit)))"

subsection \<open>Batches\<close>

text \<open>
  The operations of the store contract; \<open>OtherOp\<close> stands for any object that is none of
  them. A \<^verbatim>\<open>PutOp\<close> carries an optional value.
\<close>

datatype op =
    GetOp "string list" string "bool option"
  | SearchOp "string list" "string option" "(string \<times> json) list option" int int "bool option"
  | PutOp "string list" string "json option" "index_arg option" ttl_arg
  | ListNamespacesOp "(string \<times> string list) list option" "int option" int int
  | OtherOp

text \<open>
  What one slot of the result list holds; \<open>RNone\<close> is Python's \<^verbatim>\<open>None\<close> (the result of a
  write, of a delete, of a read that finds nothing and of an unrecognised operation).
\<close>

datatype result =
    RNone
  | RItem item
  | RItems "search_item list"
  | RNamespaces "string list list"

text \<open>The loop over the match conditions: the last prefix and the last suffix win.\<close>

fun match_conditions_loop :: "(string \<times> string list) list \<Rightarrow> string list option
    \<Rightarrow> string list option \<Rightarrow> string list option \<times> string list option" where
  "match_conditions_loop [] prefix suffix = (prefix, suffix)"
| "match_conditions_loop ((match_type, path) # conds) prefix suffix =
     (if match_type = ''prefix'' then match_conditions_loop conds (Some path) suffix
      else if match_type = ''suffix'' then match_conditions_loop conds prefix (Some path)
      else match_conditions_loop conds prefix suffix)"

text \<open>The body of the loop of \<^verbatim>\<open>batch\<close>: the chain of type tests.\<close>

fun dispatch :: "store \<Rightarrow> env \<Rightarrow> world \<Rightarrow> op \<Rightarrow> failure + world \<times> result" where
  "dispatch s e w (GetOp ns k refresh_ttl) =
     (case get s e w ns k refresh_ttl of
        Inl f \<Rightarrow> Inl f
      | Inr (w', None) \<Rightarrow> Inr (w', RNone)
      | Inr (w', Some it) \<Rightarrow> Inr (w', RItem it))"
| "dispatch s e w (SearchOp namespace_prefix query flt limit offset refresh_ttl) =
     (case search s e w namespace_prefix query flt limit offset refresh_ttl of
        Inl f \<Rightarrow> Inl f
      | Inr (w', items) \<Rightarrow> Inr (w', RItems items))"
| "dispatch s e w (PutOp ns k v index ttl) =
     (case v of
        Some val \<Rightarrow>
          (case put s e w ns k val index ttl of
             Inl f \<Rightarrow> Inl f
           | Inr w' \<Rightarrow> Inr (w', RNone))
      | None \<Rightarrow> Inr (delete e w ns k, RNone))"
| "dispatch s e w (ListNamespacesOp match_conditions max_depth limit offset) =
     (let (prefix, suffix) =
            (case match_conditions of
               None \<Rightarrow> (None, None)
             | Some conds \<Rightarrow> match_conditions_loop conds None None)
      in Inr (w, RNamespaces (list_namespaces e w prefix suffix max_depth limit offset)))"
| "dispatch s e w OtherOp = Inr (w, RNone)"

fun batch_loop :: "store \<Rightarrow> env \<Rightarrow> op list \<Rightarrow> world \<Rightarrow> result list
    \<Rightarrow> failure + world \<times> result list" where
  "batch_loop s e [] w results = Inr (w, results)"
| "batch_loop s e (op # ops) w results =
     (case dispatch s e w op of
        Inl f \<Rightarrow> Inl f
      | Inr (w', res) \<Rightarrow> batch_loop s e ops w' (results @ [res]))"

definition batch :: "store \<Rightarrow> env \<Rightarrow> world \<Rightarrow> op list \<Rightarrow> failure + world \<times> result list" where
  "batch s e w ops = batch_loop s e ops w []"

section \<open>Concrete scenarios\<close>

text \<open>
  A concrete environment for the scenarios below: two UUIDs, a clock that advances by one
  second per reading, a conversion of float minutes that rounds to the nearest microsecond,
  a vector index that returns the documents carrying an embedding (at most \<open>k\<close> of them),
  sorts that keep the order, a filter that compares a top-level field of the value, and a
  text search that every document matches and that never fails.
\<close>

definition uuid_a :: string where
  "uuid_a = ''6fa459ea-ee8a-4ca4-894e-db77e160355e''"

definition uuid_b :: string where
  "uuid_b = ''16fd2706-8baf-433b-82eb-8c7fada847da''"

definition demo_env :: env where
  "demo_env =
     \<lparr>uuid4 = (\<lambda>n. if n = 0 then uuid_a else uuid_b),
      utcnow = (\<lambda>n. 1700000000000000 + 1000000 * int n),
      float_minutes = (\<lambda>r. round (r * 60000000)),
      knn_beta =
        (\<lambda>idx v k docs. Inr (take (nat k) (filter (\<lambda>d. d_embedding d \<noteq> None) docs))),
      sort_score = (\<lambda>docs. docs),
      value_field_is =
        (\<lambda>k v x. case x of JObj kvs \<Rightarrow> map_of kvs k = Some v | _ \<Rightarrow> False),
      text_matches = (\<lambda>q d. True),
      sort_text_score = (\<lambda>docs. Inr docs)\<rparr>"

text \<open>The same environment with a vector index that is not there: the stage fails.\<close>

definition no_vector_env :: env where
  "no_vector_env = demo_env\<lparr>knn_beta := (\<lambda>idx v k docs. Inl OperationFailure)\<rparr>"

definition empty_world :: world where
  "empty_world = \<lparr>collection = [], next_id = 0, uuid_draws = 0, clock_reads = 0\<rparr>"

definition demo_embed :: "string \<Rightarrow> vector" where
  "demo_embed t = [int (length t)]"

definition article_cfg :: index_cfg where
  "article_cfg =
     \<lparr>cfg_embed = Some (Some demo_embed), cfg_fields = Some [''content.article''],
      cfg_index_name = Some ''store_index''\<rparr>"

definition plain_store :: store where
  "plain_store =
     \<lparr>ttl_support = False, index_config = None, semantic_enabled = False,
      embedding_fn = None, index_name = None\<rparr>"

definition semantic_store :: store where
  "semantic_store =
     \<lparr>ttl_support = True, index_config = Some article_cfg, semantic_enabled = True,
      embedding_fn = Some demo_embed, index_name = Some ''store_index''\<rparr>"

definition article_a :: json where
  "article_a =
     JObj [(''content'',
            JObj [(''article'', JStr ''SEBI announces new derivatives margin rules'')])]"

definition article_b :: json where
  "article_b = JObj [(''content'', JObj [(''article'', JStr ''RBI holds the repo rate'')])]"

text \<open>
  A store is well formed when its embedding function is there whenever semantic search is
  on.
\<close>

definition store_ok :: "store \<Rightarrow> bool" where
  "store_ok s = (if semantic_enabled s then embedding_fn s \<noteq> None else True)"

text \<open>Client programs of the scenarios: a write followed by a read of the same key.\<close>

definition put_then_get :: "store \<Rightarrow> env \<Rightarrow> world \<Rightarrow> string list \<Rightarrow> string \<Rightarrow> json
    \<Rightarrow> failure + item option" where
  "put_then_get s e w ns k v =
     (case put s e w ns k v None NOT_PROVIDED of
        Inl f \<Rightarrow> Inl f
      | Inr w1 \<Rightarrow>
          (case get s e w1 ns k None of
             Inl f \<Rightarrow> Inl f
           | Inr (w2, found) \<Rightarrow> Inr found))"



text \<open>A collection with three namespaces, two of them under \<open>docs\<close>.\<close>

definition namespace_doc :: "nat \<Rightarrow> string list \<Rightarrow> doc" where
  "namespace_doc i ns =
     \<lparr>d_id = Some i, d_namespace = ns, d_key = uuid_a, d_logical_key = Some ''k'',
      d_value = article_a, d_created = Some 1700000000000000, d_expiration = None,
      d_indexed = None, d_embedding = None, d_score = None\<rparr>"

definition namespaces_world :: world where
  "namespaces_world =
     \<lparr>collection =
        [namespace_doc 0 [''docs'', ''reports''], namespace_doc 1 [''docs'', ''notes''],
         namespace_doc 2 [''articles'']],
      next_id = 3, uuid_draws = 3, clock_reads = 3\<rparr>"

text \<open>
  The collection after the write of scenario A to a store with semantic search: one document,
  with its embedding.
\<close>

definition article_doc :: doc where
  "article_doc =
     \<lparr>d_id = Some 0, d_namespace = [''articles''], d_key = uuid_a, d_logical_key = Some ''a1'',
      d_value = article_a, d_created = Some 1700000000000000, d_expiration = None,
      d_indexed = None, d_embedding = Some [43], d_score = None\<rparr>"

definition articles_world :: world where
  "articles_world = \<lparr>collection = [article_doc], next_id = 1, uuid_draws = 1, clock_reads = 1\<rparr>"

text \<open>Two writes under one namespace and one key, with different values.\<close>

definition write_twice :: "store \<Rightarrow> env \<Rightarrow> world \<Rightarrow> string list \<Rightarrow> string \<Rightarrow> json \<Rightarrow> json
    \<Rightarrow> index_arg option \<Rightarrow> failure + world" where
  "write_twice s e w ns k v1 v2 index =
     (case put s e w ns k v1 index NOT_PROVIDED of
        Inl f \<Rightarrow> Inl f
      | Inr w1 \<Rightarrow> put s e w1 ns k v2 index NOT_PROVIDED)"

text \<open>The values and the keys of the items a search returns.\<close>

definition found_values :: "failure + world \<times> search_item list \<Rightarrow> json list" where
  "found_values r = (case r of Inl f \<Rightarrow> [] | Inr (w, items) \<Rightarrow> map item_value items)"

definition found_keys :: "failure + world \<times> search_item list \<Rightarrow> string list" where
  "found_keys r = (case r of Inl f \<Rightarrow> [] | Inr (w, items) \<Rightarrow> map item_key items)"

text \<open>
  The state after two such writes to the store with semantic search, starting from an empty
  collection.
\<close>

definition two_articles :: "index_arg option \<Rightarrow> world" where
  "two_articles index =
     (case write_twice semantic_store demo_env empty_world [''articles''] ''a1''
             article_a article_b index of
        Inl f \<Rightarrow> empty_world
      | Inr w \<Rightarrow> w)"

text \<open>
  The state after the write of scenario A with a time-to-live of 5 minutes: the clock has
  been read twice, the expiration is the second reading plus 5 minutes.
\<close>

definition expiring_doc :: doc where
  "expiring_doc =
     \<lparr>d_id = Some 0, d_namespace = [''articles''], d_key = uuid_a, d_logical_key = Some ''a1'',
      d_value = article_a, d_created = Some 1700000000000000,
      d_expiration = Some (Some 1700000301000000),
      d_indexed = None, d_embedding = Some [43], d_score = None\<rparr>"

definition expiring_world :: world where
  "expiring_world = \<lparr>collection = [expiring_doc], next_id = 1, uuid_draws = 1, clock_reads = 2\<rparr>"

text \<open>A batch: a read, a write, an object that is no operation, and the read again.\<close>

definition demo_ops :: "op list" where
  "demo_ops =
     [GetOp [''articles''] uuid_a None,
      PutOp [''articles''] ''a1'' (Some article_a) None NOT_PROVIDED,
      OtherOp,
      GetOp [''articles''] uuid_a None]"

text \<open>
  A write computes an expiration only for a supplied number of minutes on a store with TTL
  support; it does so at the clock reading after the one taken for \<^verbatim>\<open>created\<close>. The
  predicate tells whether this computation, if there is one, gives an instant.
\<close>

definition ttl_computable :: "store \<Rightarrow> env \<Rightarrow> world \<Rightarrow> ttl_arg \<Rightarrow> bool" where
  "ttl_computable s e w ttl =
     (case ttl of
        NOT_PROVIDED \<Rightarrow> True
      | Ttl None \<Rightarrow> True
      | Ttl (Some x) \<Rightarrow>
          (if ttl_support s
           then (case expiration_at e (Suc (clock_reads w)) x of Inl f \<Rightarrow> False | Inr t \<Rightarrow> True)
           else True))"

section \<open>Text extraction\<close>

lemma follow_parts_None: "follow_parts None parts = None"
  by (cases parts) simp_all

lemma follow_parts_descend: "follow_parts (Some v) parts = descend v parts"
proof (induction parts arbitrary: v)
  case Nil
  show ?case by simp
next
  case (Cons part parts)
  show ?case
  proof (cases v)
    case (JObj kvs)
    then show ?thesis using Cons.IH by (simp split: option.splits)
  qed simp_all
qed

lemma collect_text_acc:
  "collect_text doc fs results =
     results @ trimmed_nonempty (concat (map (string_at doc) fs))"
proof (induction fs arbitrary: results)
  case Nil
  show ?case by (simp add: trimmed_nonempty_def)
next
  case (Cons fld fs)
  show ?case
    by (simp add: Cons.IH follow_parts_descend string_at_def trimmed_nonempty_def
        split: option.splits json.splits)
qed

text \<open>
  Claim C9 says that the extracted text is the concatenation, in field order and joined
  with single spaces, of the string found at each field's dotted path, a field contributing
  nothing when a segment is missing or the path ends at a non-string. The code returns
  something else when a string has surrounding whitespace: it strips each string, and a
  string that is empty after stripping contributes nothing. Here the string found is
  \<open>'' Greetings''\<close> and the text extracted is \<open>''Greetings''\<close>.
\<close>

theorem get_text_at_path_counterexample:
  "get_text_at_path (JObj [(''summary'', JStr '' Greetings'')]) [''summary''] = ''Greetings''
   \<and> spec_text_at_path (JObj [(''summary'', JStr '' Greetings'')]) [''summary''] = '' Greetings''
   \<and> get_text_at_path (JObj [(''summary'', JStr '' Greetings'')]) [''summary'']
       \<noteq> spec_text_at_path (JObj [(''summary'', JStr '' Greetings'')]) [''summary'']"
  by (simp add: get_text_at_path_def spec_text_at_path_def string_at_def strip_def isspace_def)

text \<open>
  Claim C9, amended: for every value and every list of dotted field paths, the extracted
  text is the concatenation, in field order and joined with single spaces, of the
  whitespace-stripped strings found by descending each field's path (\<open>string_at\<close>: nothing
  for a missing segment or a non-string), leaving out those that are empty after stripping.
\<close>

theorem get_text_at_path_trimmed:
  "get_text_at_path doc fs = join '' '' (trimmed_nonempty (concat (map (string_at doc) fs)))"
  by (simp add: get_text_at_path_def collect_text_acc)

theorem get_text_at_path_trimmed_witness:
  "get_text_at_path
     (JObj [(''content'', JObj [(''article'', JStr ''Hello world'')]),
            (''summary'', JStr '' Greetings'')])
     [''content.article'', ''missing.path'', ''content'', ''summary'']
   = ''Hello world Greetings''"
  using get_text_at_path_trimmed
    [of "JObj [(''content'', JObj [(''article'', JStr ''Hello world'')]),
               (''summary'', JStr '' Greetings'')]"
        "[''content.article'', ''missing.path'', ''content'', ''summary'']"]
  by (simp add: string_at_def trimmed_nonempty_def strip_def isspace_def)

section \<open>Writing then reading\<close>

lemma put_total:
  "store_ok s \<Longrightarrow> ttl_computable s e w ttl \<Longrightarrow> \<exists>w1. put s e w ns k v index ttl = Inr w1"
  by (auto simp: put_def store_ok_def ttl_computable_def compute_expiration_def Let_def
      split: ttl_arg.splits option.splits sum.splits prod.splits if_splits)

lemma put_stored:
  assumes "put s e w ns k v index ttl = Inr w1"
  shows "collection w1 = collection w @ [last (collection w1)]"
    and "d_key (last (collection w1)) = uuid4 e (uuid_draws w)"
    and "d_logical_key (last (collection w1)) = Some k"
    and "d_namespace (last (collection w1)) = ns"
    and "d_value (last (collection w1)) = v"
    and "d_created (last (collection w1)) = Some (utcnow e (clock_reads w))"
    and "d_indexed (last (collection w1)) = index"
    and "(d_embedding (last (collection w1)) \<noteq> None) =
         (semantic_enabled s \<and> index \<noteq> Some (IndexBool False)
          \<and> strip (get_text_at_path v (configured_fields s)) \<noteq> [])"
    and "d_expiration (last (collection w1)) =
         (case ttl of
            NOT_PROVIDED \<Rightarrow> None
          | Ttl t \<Rightarrow>
              (if ttl_support s then
                 Some (case t of
                         None \<Rightarrow> None
                       | Some x \<Rightarrow>
                           (case expiration_at e (Suc (clock_reads w)) x of
                              Inl f \<Rightarrow> None
                            | Inr t \<Rightarrow> Some t))
               else None))"
    and "ttl_computable s e w ttl"
  using assms
  by (auto simp: put_def Let_def insert_one_def compute_expiration_def ttl_computable_def
      split: ttl_arg.splits option.splits sum.splits prod.splits if_splits)

lemma find_append_miss:
  "\<forall>d \<in> set ds. \<not> P d \<Longrightarrow> \<not> P x \<Longrightarrow> find P (ds @ [x]) = None"
  by (induction ds) auto

lemma matches_key: "matches e (namespace_query ns @ [KeyIs k]) x \<Longrightarrow> d_key x = k"
  by (simp add: matches_def)

lemma no_ttl_computable:
  "ttl_computable s e w NOT_PROVIDED" "ttl_computable s e w (Ttl None)"
  "\<not> ttl_support s \<Longrightarrow> ttl_computable s e w ttl"
  by (simp_all add: ttl_computable_def split: ttl_arg.splits option.splits)

text \<open>
  A read looks for the caller's key in the field \<^verbatim>\<open>key\<close>, where a write has put the fresh
  UUID; the caller's key is in \<^verbatim>\<open>logical_key\<close>. So a read after a write finds nothing,
  unless the key asked for is the storage key of some document.
\<close>

lemma put_then_get_misses:
  assumes fresh: "uuid4 e (uuid_draws w) \<noteq> k"
    and old: "\<forall>d \<in> set (collection w). d_key d \<noteq> k"
    and ok: "store_ok s"
  shows "put_then_get s e w ns k v = Inr None"
proof -
  from put_total [OF ok no_ttl_computable(1)]
  obtain w1 where p: "put s e w ns k v None NOT_PROVIDED = Inr w1"
    by blast
  note c = put_stored(1) [OF p] and dk = put_stored(2) [OF p]
  have "find (matches e (namespace_query ns @ [KeyIs k])) (collection w @ [last (collection w1)])
          = None"
  proof (rule find_append_miss)
    show "\<forall>x\<in>set (collection w). \<not> matches e (namespace_query ns @ [KeyIs k]) x"
      using old by (auto dest: matches_key)
    show "\<not> matches e (namespace_query ns @ [KeyIs k]) (last (collection w1))"
      using fresh dk by (auto dest: matches_key)
  qed
  then have "find_one e (namespace_query ns @ [KeyIs k]) w1 = None"
    using c by (simp add: find_one_def)
  then have "get s e w1 ns k None = Inr (w1, None)"
    by (simp add: get_def)
  then show ?thesis
    by (simp add: put_then_get_def p)
qed

text \<open>
  Claim C1 says that after \<^verbatim>\<open>put(namespace, key, value)\<close> a \<^verbatim>\<open>get(namespace, key)\<close> returns a
  record with the value written. The code does not do so. In scenario A of the specification
  (namespace \<open>articles\<close>, key \<open>a1\<close>, on an empty collection) the read returns no record.
\<close>

theorem put_then_get_scenario_a:
  "put_then_get plain_store demo_env empty_world [''articles''] ''a1'' article_a = Inr None"
  by (simp add: put_then_get_def put_def get_def plain_store_def demo_env_def empty_world_def
      insert_one_def find_one_def namespace_query_def matches_def uuid_a_def)

section \<open>What a write stores\<close>

lemma semantic_store_ok: "store_ok semantic_store"
  by (simp add: store_ok_def semantic_store_def)

lemma plain_store_ok: "store_ok plain_store"
  by (simp add: store_ok_def plain_store_def)

lemma article_a_text:
  "get_text_at_path article_a (configured_fields semantic_store)
     = ''SEBI announces new derivatives margin rules''"
  by (simp add: get_text_at_path_def article_a_def configured_fields_def semantic_store_def
      article_cfg_def strip_def isspace_def)

text \<open>
  Claim C3: the document a write stores carries an embedding if and only if semantic search
  is enabled for the store, the write did not opt out (\<^verbatim>\<open>index\<close> is not \<^verbatim>\<open>False\<close>) and the
  text extracted from the configured fields is not empty after stripping. In particular a
  write with \<^verbatim>\<open>index=False\<close> never stores an embedding. A write to a well-formed store
  succeeds, and appends one document, whenever its expiration can be computed.
\<close>

theorem put_embedding_iff:
  "(put s e w ns k v index ttl = Inr w1 \<longrightarrow>
      (\<exists>d. collection w1 = collection w @ [d]
         \<and> ((d_embedding d \<noteq> None) =
              (semantic_enabled s \<and> index \<noteq> Some (IndexBool False)
               \<and> strip (get_text_at_path v (configured_fields s)) \<noteq> []))
         \<and> (index = Some (IndexBool False) \<longrightarrow> d_embedding d = None)))
   \<and> (store_ok s \<and> ttl_computable s e w ttl \<longrightarrow>
        (\<exists>w2. put s e w ns k v index ttl = Inr w2))"
proof (intro conjI impI)
  assume p: "put s e w ns k v index ttl = Inr w1"
  note c = put_stored(1) [OF p] and m = put_stored(8) [OF p]
  from m have "index = Some (IndexBool False) \<longrightarrow> d_embedding (last (collection w1)) = None"
    by auto
  with c m show "\<exists>d. collection w1 = collection w @ [d]
         \<and> ((d_embedding d \<noteq> None) =
              (semantic_enabled s \<and> index \<noteq> Some (IndexBool False)
               \<and> strip (get_text_at_path v (configured_fields s)) \<noteq> []))
         \<and> (index = Some (IndexBool False) \<longrightarrow> d_embedding d = None)"
    by (intro exI [of _ "last (collection w1)"] conjI)
next
  assume "store_ok s \<and> ttl_computable s e w ttl"
  then show "\<exists>w2. put s e w ns k v index ttl = Inr w2"
    using put_total by blast
qed

lemma put_article:
  "put semantic_store demo_env empty_world [''articles''] ''a1'' article_a None NOT_PROVIDED
     = Inr articles_world"
  by (simp add: put_def semantic_store_def demo_env_def empty_world_def insert_one_def
      articles_world_def article_doc_def article_a_text [unfolded semantic_store_def]
      strip_def isspace_def demo_embed_def)

theorem put_embedding_iff_witness:
  "store_ok semantic_store
   \<and> ttl_computable semantic_store demo_env empty_world NOT_PROVIDED
   \<and> put semantic_store demo_env empty_world [''articles''] ''a1'' article_a None NOT_PROVIDED
       = Inr articles_world
   \<and> (\<exists>d. collection articles_world = [d] \<and> d_embedding d \<noteq> None)
   \<and> (\<exists>w1 d. put semantic_store demo_env empty_world [''articles''] ''a1'' article_a
                (Some (IndexBool False)) NOT_PROVIDED = Inr w1
        \<and> collection w1 = [d] \<and> d_embedding d = None)"
proof -
  have t: "strip (get_text_at_path article_a (configured_fields semantic_store)) \<noteq> []"
    by (simp add: article_a_text strip_def isspace_def)
  have s: "semantic_enabled semantic_store"
    by (simp add: semantic_store_def)
  have e: "collection empty_world = []"
    by (simp add: empty_world_def)
  have a: "\<exists>d. collection articles_world = [d] \<and> d_embedding d \<noteq> None"
    using put_embedding_iff [of semantic_store demo_env empty_world "[''articles'']"
        "''a1''" article_a None NOT_PROVIDED articles_world] put_article t s e
    by simp
  from put_embedding_iff [of semantic_store demo_env empty_world "[''articles'']"
        "''a1''" article_a "Some (IndexBool False)" NOT_PROVIDED] semantic_store_ok
    no_ttl_computable(1)
  obtain w2 where p2: "put semantic_store demo_env empty_world [''articles''] ''a1'' article_a
                (Some (IndexBool False)) NOT_PROVIDED = Inr w2"
    by blast
  have b: "\<exists>w1 d. put semantic_store demo_env empty_world [''articles''] ''a1'' article_a
                (Some (IndexBool False)) NOT_PROVIDED = Inr w1
        \<and> collection w1 = [d] \<and> d_embedding d = None"
    using put_embedding_iff [of semantic_store demo_env empty_world "[''articles'']"
        "''a1''" article_a "Some (IndexBool False)" NOT_PROVIDED w2] p2 e
    by auto
  from semantic_store_ok no_ttl_computable(1) put_article a b show ?thesis
    by (intro conjI)
qed

lemma put_fails_uncomputable:
  "\<not> ttl_computable s e w ttl \<Longrightarrow> \<exists>f. put s e w ns k v index ttl = Inl f"
proof (cases "put s e w ns k v index ttl")
  case (Inl f)
  then show ?thesis by blast
next
  case (Inr w1)
  assume "\<not> ttl_computable s e w ttl"
  with put_stored(10) [OF Inr] show ?thesis by simp
qed

lemma ttl_computable_number:
  "ttl_support s \<Longrightarrow>
   ttl_computable s e w (Ttl (Some x)) =
     (\<exists>delta. timedelta_minutes e x = Inr delta
        \<and> datetime_min \<le> utcnow e (Suc (clock_reads w)) + delta
        \<and> utcnow e (Suc (clock_reads w)) + delta \<le> datetime_max)"
  by (auto simp: ttl_computable_def expiration_at_def split: sum.splits if_splits)

lemma put_expiration_number:
  assumes p: "put s e w ns k v index ttl = Inr w1"
    and t: "ttl_support s" and x: "ttl = Ttl (Some x)"
  shows "\<exists>delta. timedelta_minutes e x = Inr delta
           \<and> d_expiration (last (collection w1))
               = Some (Some (utcnow e (Suc (clock_reads w)) + delta))"
proof -
  from put_stored(10) [OF p] t x obtain u where u: "expiration_at e (Suc (clock_reads w)) x = Inr u"
    by (auto simp: ttl_computable_def split: sum.splits)
  then obtain delta where d: "timedelta_minutes e x = Inr delta"
    and s: "u = utcnow e (Suc (clock_reads w)) + delta"
    by (auto simp: expiration_at_def split: sum.splits if_splits)
  from put_stored(9) [OF p] t x u s
  have "d_expiration (last (collection w1)) = Some (Some (utcnow e (Suc (clock_reads w)) + delta))"
    by simp
  with d show ?thesis by blast
qed

text \<open>
  Claim C4 says that with a numeric TTL on a store with TTL support the record's expiration
  is \<open>now + ttl\<close> minutes. Instants end with the year 9999: for a TTL of 10000000000 minutes
  the sum is no instant, \<^verbatim>\<open>_compute_expiration\<close> raises an \<^verbatim>\<open>OverflowError\<close>, and the
  write stores no record at all.
\<close>

theorem put_expiration_counterexample:
  "ttl_support semantic_store
   \<and> put semantic_store demo_env empty_world [''articles''] ''a1'' article_a None
        (Ttl (Some (IntNum 10000000000))) = Inl OverflowError"
  by (simp add: put_def semantic_store_def demo_env_def empty_world_def
      compute_expiration_def expiration_at_def in_timedelta_range_def minutes_def
      timedelta_min_def timedelta_max_def datetime_min_def datetime_max_def)

text \<open>
  Claim C4, amended. A write that returns has appended one document. With a number of
  minutes supplied and TTL support, its expiration is \<open>now\<close> plus the duration
  \<^verbatim>\<open>timedelta(minutes=ttl)\<close>, \<open>now\<close> being the clock reading taken when the expiration is
  computed (the second of the write); for an integer the duration is exactly \<open>ttl\<close> minutes,
  for a float it is the library's rounding of \<open>ttl\<close> minutes to whole microseconds. With the
  TTL supplied as \<^verbatim>\<open>None\<close> and TTL support the expiration is null; with no TTL supplied
  there is no expiration field; and without TTL support there is none either, whatever is
  supplied. A write to a well-formed store returns whenever its expiration can be computed,
  which is always so without TTL support, without a TTL and with the TTL \<^verbatim>\<open>None\<close>; with
  TTL support and a number it is so exactly when the duration exists and \<open>now\<close> plus the
  duration is an instant, and otherwise the write raises and stores nothing.
\<close>

theorem put_expiration:
  "(put s e w ns k v index ttl = Inr w1 \<longrightarrow>
      (\<exists>d. collection w1 = collection w @ [d]
         \<and> (\<forall>x. ttl_support s \<and> ttl = Ttl (Some x) \<longrightarrow>
               (\<exists>delta. timedelta_minutes e x = Inr delta
                  \<and> d_expiration d = Some (Some (utcnow e (Suc (clock_reads w)) + delta))))
         \<and> (ttl_support s \<and> ttl = Ttl None \<longrightarrow> d_expiration d = Some None)
         \<and> (ttl = NOT_PROVIDED \<longrightarrow> d_expiration d = None)
         \<and> (\<not> ttl_support s \<longrightarrow> d_expiration d = None)))
   \<and> (store_ok s \<and> ttl_computable s e w ttl \<longrightarrow>
        (\<exists>w2. put s e w ns k v index ttl = Inr w2))
   \<and> (\<not> ttl_computable s e w ttl \<longrightarrow> (\<exists>f. put s e w ns k v index ttl = Inl f))
   \<and> (\<not> ttl_support s \<or> ttl = NOT_PROVIDED \<or> ttl = Ttl None \<longrightarrow> ttl_computable s e w ttl)
   \<and> (ttl_support s \<longrightarrow>
        ttl_computable s e w (Ttl (Some y)) =
          (\<exists>delta. timedelta_minutes e y = Inr delta
             \<and> datetime_min \<le> utcnow e (Suc (clock_reads w)) + delta
             \<and> utcnow e (Suc (clock_reads w)) + delta \<le> datetime_max))
   \<and> timedelta_minutes e (IntNum m) =
       (if timedelta_min \<le> minutes m \<and> minutes m \<le> timedelta_max
        then Inr (minutes m) else Inl OverflowError)"
proof (intro conjI impI)
  assume p: "put s e w ns k v index ttl = Inr w1"
  let ?d = "last (collection w1)"
  note c = put_stored(1) [OF p] and x = put_stored(9) [OF p]
  have 1: "\<forall>x. ttl_support s \<and> ttl = Ttl (Some x) \<longrightarrow>
               (\<exists>delta. timedelta_minutes e x = Inr delta
                  \<and> d_expiration ?d = Some (Some (utcnow e (Suc (clock_reads w)) + delta)))"
    using put_expiration_number [OF p] by blast
  have 2: "ttl_support s \<and> ttl = Ttl None \<longrightarrow> d_expiration ?d = Some None"
    using x by simp
  have 3: "ttl = NOT_PROVIDED \<longrightarrow> d_expiration ?d = None"
    using x by simp
  have 4: "\<not> ttl_support s \<longrightarrow> d_expiration ?d = None"
    using x by (simp split: ttl_arg.splits)
  from c 1 2 3 4 show "\<exists>d. collection w1 = collection w @ [d]
         \<and> (\<forall>x. ttl_support s \<and> ttl = Ttl (Some x) \<longrightarrow>
               (\<exists>delta. timedelta_minutes e x = Inr delta
                  \<and> d_expiration d = Some (Some (utcnow e (Suc (clock_reads w)) + delta))))
         \<and> (ttl_support s \<and> ttl = Ttl None \<longrightarrow> d_expiration d = Some None)
         \<and> (ttl = NOT_PROVIDED \<longrightarrow> d_expiration d = None)
         \<and> (\<not> ttl_support s \<longrightarrow> d_expiration d = None)"
    by (intro exI [of _ ?d] conjI)
next
  assume "store_ok s \<and> ttl_computable s e w ttl"
  then show "\<exists>w2. put s e w ns k v index ttl = Inr w2"
    using put_total by blast
next
  assume "\<not> ttl_computable s e w ttl"
  then show "\<exists>f. put s e w ns k v index ttl = Inl f"
    by (rule put_fails_uncomputable)
next
  assume "\<not> ttl_support s \<or> ttl = NOT_PROVIDED \<or> ttl = Ttl None"
  then show "ttl_computable s e w ttl"
    using no_ttl_computable by blast
next
  assume "ttl_support s"
  then show "ttl_computable s e w (Ttl (Some y)) =
          (\<exists>delta. timedelta_minutes e y = Inr delta
             \<and> datetime_min \<le> utcnow e (Suc (clock_reads w)) + delta
             \<and> utcnow e (Suc (clock_reads w)) + delta \<le> datetime_max)"
    by (rule ttl_computable_number)
next
  show "timedelta_minutes e (IntNum m) =
       (if timedelta_min \<le> minutes m \<and> minutes m \<le> timedelta_max
        then Inr (minutes m) else Inl OverflowError)"
    by (simp add: in_timedelta_range_def)
qed

theorem put_expiration_witness:
  "put semantic_store demo_env empty_world [''articles''] ''a1'' article_a None
        (Ttl (Some (IntNum 5))) = Inr expiring_world
   \<and> ttl_support semantic_store
   \<and> timedelta_minutes demo_env (IntNum 5) = Inr 300000000
   \<and> (\<exists>d. collection expiring_world = [d] \<and> d_expiration d = Some (Some 1700000301000000))
   \<and> store_ok semantic_store
   \<and> ttl_computable semantic_store demo_env empty_world (Ttl None)
   \<and> (\<exists>w1 d. put semantic_store demo_env empty_world [''articles''] ''a1'' article_a None
                (Ttl None) = Inr w1
        \<and> collection w1 = [d] \<and> d_expiration d = Some None)
   \<and> \<not> ttl_support plain_store \<and> store_ok plain_store
   \<and> ttl_computable plain_store demo_env empty_world (Ttl (Some (IntNum 10000000000)))
   \<and> (\<exists>w1 d. put plain_store demo_env empty_world [''articles''] ''a1'' article_a None
                (Ttl (Some (IntNum 10000000000))) = Inr w1
        \<and> collection w1 = [d] \<and> d_expiration d = None)
   \<and> \<not> ttl_computable semantic_store demo_env empty_world (Ttl (Some FloatNaN))
   \<and> (\<exists>f. put semantic_store demo_env empty_world [''articles''] ''a1'' article_a None
              (Ttl (Some FloatNaN)) = Inl f)"
proof -
  have t: "ttl_support semantic_store" "\<not> ttl_support plain_store"
    by (simp_all add: semantic_store_def plain_store_def)
  have e: "collection empty_world = []" "clock_reads empty_world = 0"
    by (simp_all add: empty_world_def)
  have n: "utcnow demo_env (Suc 0) = 1700000001000000"
    by (simp add: demo_env_def)
  have p5: "put semantic_store demo_env empty_world [''articles''] ''a1'' article_a None
        (Ttl (Some (IntNum 5))) = Inr expiring_world"
    by (simp add: put_def semantic_store_def demo_env_def empty_world_def insert_one_def
      expiring_world_def expiring_doc_def article_a_text [unfolded semantic_store_def]
      strip_def isspace_def demo_embed_def compute_expiration_def expiration_at_def
      in_timedelta_range_def minutes_def timedelta_min_def timedelta_max_def
      datetime_min_def datetime_max_def)
  note th5 = put_expiration [of semantic_store demo_env empty_world "[''articles'']" "''a1''"
      article_a None "Ttl (Some (IntNum 5))" expiring_world "IntNum 5" 5]
  have m5: "timedelta_minutes demo_env (IntNum 5) = Inr 300000000"
    using th5 by (simp add: minutes_def timedelta_min_def timedelta_max_def)
  have a: "\<exists>d. collection expiring_world = [d] \<and> d_expiration d = Some (Some 1700000301000000)"
    using th5 p5 t(1) e n m5 by auto
  note thn = put_expiration [of semantic_store demo_env empty_world "[''articles'']" "''a1''"
      article_a None "Ttl None" _ "IntNum 5" 5]
  have cn: "ttl_computable semantic_store demo_env empty_world (Ttl None)"
    using thn by simp
  with thn semantic_store_ok
  obtain wn where pn: "put semantic_store demo_env empty_world [''articles''] ''a1'' article_a
      None (Ttl None) = Inr wn"
    by blast
  have b: "\<exists>w1 d. put semantic_store demo_env empty_world [''articles''] ''a1'' article_a None
                (Ttl None) = Inr w1
        \<and> collection w1 = [d] \<and> d_expiration d = Some None"
    using put_expiration [of semantic_store demo_env empty_world "[''articles'']" "''a1''"
      article_a None "Ttl None" wn "IntNum 5" 5] pn t(1) e
    by auto
  note thp = put_expiration [of plain_store demo_env empty_world "[''articles'']" "''a1''"
      article_a None "Ttl (Some (IntNum 10000000000))" _ "IntNum 5" 5]
  have cp: "ttl_computable plain_store demo_env empty_world (Ttl (Some (IntNum 10000000000)))"
    using thp t(2) by simp
  with thp plain_store_ok
  obtain wp where pp: "put plain_store demo_env empty_world [''articles''] ''a1'' article_a
      None (Ttl (Some (IntNum 10000000000))) = Inr wp"
    by blast
  have c: "\<exists>w1 d. put plain_store demo_env empty_world [''articles''] ''a1'' article_a None
                (Ttl (Some (IntNum 10000000000))) = Inr w1
        \<and> collection w1 = [d] \<and> d_expiration d = None"
    using put_expiration [of plain_store demo_env empty_world "[''articles'']" "''a1''"
      article_a None "Ttl (Some (IntNum 10000000000))" wp "IntNum 5" 5] pp t(2) e
    by auto
  note thf = put_expiration [of semantic_store demo_env empty_world "[''articles'']" "''a1''"
      article_a None "Ttl (Some FloatNaN)" _ FloatNaN 5]
  have cf: "\<not> ttl_computable semantic_store demo_env empty_world (Ttl (Some FloatNaN))"
    using thf t(1) by simp
  with thf have d: "\<exists>f. put semantic_store demo_env empty_world [''articles''] ''a1'' article_a
      None (Ttl (Some FloatNaN)) = Inl f"
    by blast
  from p5 t m5 a semantic_store_ok cn b plain_store_ok cp c cf d show ?thesis
    by (intro conjI)
qed

section \<open>Construction\<close>

text \<open>The stores of the scenarios are stores that \<open>init\<close> builds.\<close>

lemma scenario_stores_built:
  "init None False None = Inr plain_store"
  "init None True (Some article_cfg) = Inr semantic_store"
  by (simp_all add: init_def plain_store_def semantic_store_def article_cfg_def)

text \<open>
  \<open>init\<close> builds a well-formed store unless the \<^verbatim>\<open>embed\<close> entry is there and holds nothing
  that can be called.
\<close>

lemma init_store_ok:
  "init bf ttl cfg = Inr s \<Longrightarrow> store_ok s = (\<forall>c. cfg = Some c \<longrightarrow> cfg_embed c \<noteq> Some None)"
  by (auto simp: init_def store_ok_def split: option.splits)


lemma text_only_search:
  assumes "\<not> semantic_enabled s"
  shows "search s e w namespace_prefix query flt limit offset refresh_ttl =
     (case find_sorted e w (text_search_query namespace_prefix flt query)
             (has_query query) offset limit of
        Inl f \<Rightarrow> Inl f
      | Inr docs \<Rightarrow> Inr (w, map to_search_item docs))"
  using assms by (simp add: search_def)






section \<open>Listing namespaces\<close>

lemma py_slice_set: "set (py_slice xs a b) \<subseteq> set xs"
  by (auto simp: py_slice_def Let_def dest: in_set_takeD in_set_dropD)

lemma py_slice_distinct: "distinct xs \<Longrightarrow> distinct (py_slice xs a b)"
  by (simp add: py_slice_def Let_def)

lemma py_slice_sorted: "sorted xs \<Longrightarrow> sorted (py_slice xs a b)"
  by (simp add: py_slice_def Let_def)

text \<open>
  Whatever the arguments, the result is sorted and without duplicates, and each of its
  entries is a tuple of single characters: the characters of (a slice of) one segment.
\<close>

lemma list_namespaces_sorted:
  "sorted (list_namespaces e w prefix suffix max_depth limit offset)"
  "distinct (list_namespaces e w prefix suffix max_depth limit offset)"
  by (simp_all add: list_namespaces_def Let_def py_slice_sorted py_slice_distinct)

lemma list_namespaces_characters:
  assumes "ns \<in> set (list_namespaces e w prefix suffix max_depth limit offset)"
    and "seg \<in> set ns"
  shows "length seg = 1"
proof -
  from assms(1) obtain x where "ns = tuple_of x"
    by (auto simp: list_namespaces_def Let_def dest!: subsetD [OF py_slice_set])
  with assms(2) show ?thesis
    by (auto simp: tuple_of_def)
qed

lemma namespaces_world_segments:
  "distinct_namespace demo_env [] namespaces_world = [''reports'', ''docs'', ''notes'', ''articles'']"
  by (simp add: distinct_namespace_def namespaces_world_def namespace_doc_def matches_def)

lemma sorted_tuples:
  "sorted_list_of_set (set [[''r''], [''d''], [''n''], [''a'']]) = [[''a''], [''d''], [''n''], [''r'']]"
  "sorted_list_of_set
     (set [tuple_of ''reports'', tuple_of ''docs'', tuple_of ''notes'', tuple_of ''articles''])
   = [tuple_of ''articles'', tuple_of ''docs'', tuple_of ''notes'', tuple_of ''reports'']"
  by (simp_all only: sorted_list_of_set_sort_remdups) (simp_all add: tuple_of_def)

text \<open>
  Claim C6 says that with \<open>max_depth = d\<close> the namespaces returned are the stored namespaces
  cut to their first \<open>d\<close> segments, without duplicates, sorted and paged. The code does not
  return namespaces: \<^verbatim>\<open>distinct("namespace", q)\<close> gives the distinct segments, and the code
  slices each segment as if it were a namespace and turns it into the tuple of its
  characters. For the namespaces \<open>(docs, reports)\<close>, \<open>(docs, notes)\<close> and \<open>(articles)\<close> a depth
  of 1 gives four tuples of one character, where the claim gives \<open>(articles)\<close> and \<open>(docs)\<close>;
  without a depth the result is the four segments, each spelled out.
\<close>

theorem list_namespaces_scenario:
  "map d_namespace (collection namespaces_world)
     = [[''docs'', ''reports''], [''docs'', ''notes''], [''articles'']]
   \<and> distinct_namespace demo_env [] namespaces_world
       = [''reports'', ''docs'', ''notes'', ''articles'']
   \<and> list_namespaces demo_env namespaces_world None None (Some 1) 100 0
       = [[''a''], [''d''], [''n''], [''r'']]
   \<and> list_namespaces demo_env namespaces_world None None None 100 0
       = [tuple_of ''articles'', tuple_of ''docs'', tuple_of ''notes'', tuple_of ''reports'']"
proof (intro conjI)
  show "map d_namespace (collection namespaces_world)
     = [[''docs'', ''reports''], [''docs'', ''notes''], [''articles'']]"
    by (simp add: namespaces_world_def namespace_doc_def)
  show "distinct_namespace demo_env [] namespaces_world
       = [''reports'', ''docs'', ''notes'', ''articles'']"
    by (rule namespaces_world_segments)
  have "map tuple_of (map (\<lambda>ns. py_slice ns None (Some 1))
          [''reports'', ''docs'', ''notes'', ''articles''])
        = [[''r''], [''d''], [''n''], [''a'']]"
    by (simp add: py_slice_def slice_index_def tuple_of_def)
  then show "list_namespaces demo_env namespaces_world None None (Some 1) 100 0
       = [[''a''], [''d''], [''n''], [''r'']]"
    unfolding list_namespaces_def Let_def
    by (simp only: option.case namespaces_world_segments sorted_tuples)
       (simp add: py_slice_def slice_index_def)
  show "list_namespaces demo_env namespaces_world None None None 100 0
       = [tuple_of ''articles'', tuple_of ''docs'', tuple_of ''notes'', tuple_of ''reports'']"
    unfolding list_namespaces_def Let_def
    by (simp only: option.case namespaces_world_segments list.map sorted_tuples)
       (simp add: py_slice_def slice_index_def)
qed

section \<open>Search\<close>

text \<open>
  The pipeline of the vector phase ends with the limit and the projection, so its result has
  at most \<open>limit\<close> documents, and none of them carries an expiration or a logical key.
\<close>

lemma run_pipeline_append:
  "run_pipeline e (ps @ qs) docs =
     (case run_pipeline e ps docs of Inl f \<Rightarrow> Inl f | Inr ds \<Rightarrow> run_pipeline e qs ds)"
  by (induction ps arbitrary: docs) (auto split: sum.splits)

lemma limit_project_result:
  assumes "run_pipeline e (ps @ [LimitStage n, ProjectStage]) docs = Inr ds"
  shows "int (length ds) \<le> n" and "\<forall>d \<in> set ds. \<not> has_expiration d"
    and "\<forall>d \<in> set ds. d_logical_key d = None"
  using assms
  by (auto simp: run_pipeline_append project_def has_expiration_def
      split: sum.splits if_splits)

lemma vector_pipeline_shape:
  "\<exists>ps. vector_pipeline s v namespace_prefix flt limit offset
          = ps @ [LimitStage limit, ProjectStage]"
  by (simp add: vector_pipeline_def Let_def)

lemma aggregate_result:
  assumes "aggregate e w (vector_pipeline s v namespace_prefix flt limit offset) = Inr ds"
  shows "int (length ds) \<le> limit" and "\<forall>d \<in> set ds. \<not> has_expiration d"
    and "\<forall>d \<in> set ds. d_logical_key d = None"
proof -
  from vector_pipeline_shape obtain ps where
    "vector_pipeline s v namespace_prefix flt limit offset = ps @ [LimitStage limit, ProjectStage]"
    by blast
  with assms have r: "run_pipeline e (ps @ [LimitStage limit, ProjectStage]) (collection w) = Inr ds"
    by (simp add: aggregate_def)
  show "int (length ds) \<le> limit" and "\<forall>d \<in> set ds. \<not> has_expiration d"
    and "\<forall>d \<in> set ds. d_logical_key d = None"
    using limit_project_result [OF r] by blast+
qed

text \<open>
  On such documents the loop of the vector phase never refreshes anything: it appends one
  item per document and leaves the state alone.
\<close>

lemma vector_loop_plain:
  "\<forall>d \<in> set docs. \<not> has_expiration d \<Longrightarrow>
   vector_loop s e refresh_ttl docs w results seen_keys =
     Inr (w, results @ map to_search_item docs, seen_keys \<union> key_of ` set docs)"
  by (induction docs arbitrary: results seen_keys) auto

lemma fallback_loop_length:
  "int (length results) < limit \<Longrightarrow>
   int (length (fallback_loop limit docs results seen_keys)) \<le> limit"
proof (induction docs arbitrary: results seen_keys)
  case Nil
  then show ?case by simp
next
  case (Cons d docs)
  show ?case
  proof (cases "key_of d \<in> seen_keys")
    case True
    then show ?thesis using Cons by simp
  next
    case False
    show ?thesis
    proof (cases "limit \<le> int (length (results @ [to_search_item d]))")
      case True
      with False Cons.prems show ?thesis by (simp add: Let_def)
    next
      case False
      then have "int (length (results @ [to_search_item d])) < limit" by simp
      from Cons.IH [OF this] \<open>key_of d \<notin> seen_keys\<close> False show ?thesis
        by (simp add: Let_def)
    qed
  qed
qed

text \<open>
  A search in semantic mode that returns leaves the state as it was and returns at most
  \<open>limit\<close> items (none for a limit that is not positive).
\<close>

lemma search_semantic_result:
  assumes "semantic_enabled s"
    and "search s e w namespace_prefix query flt limit offset refresh_ttl = Inr (w', items)"
  shows "w' = w" and "int (length items) \<le> max 0 limit"
proof -
  from assms obtain emb where emb: "embedding_fn s = Some emb"
    by (auto simp: search_def split: option.splits)
  let ?p = "vector_pipeline s (emb (query_or_empty query)) namespace_prefix flt limit offset"
  define docs where "docs = (case aggregate e w ?p of Inr ds \<Rightarrow> ds | Inl f \<Rightarrow> [])"
  have plain: "\<forall>d \<in> set docs. \<not> has_expiration d"
    and len: "int (length docs) \<le> max 0 limit"
  proof -
    show "\<forall>d \<in> set docs. \<not> has_expiration d"
    proof (cases "aggregate e w ?p")
      case (Inl f)
      then show ?thesis by (simp add: docs_def)
    next
      case (Inr ds)
      with aggregate_result(2) [OF Inr] show ?thesis by (simp add: docs_def)
    qed
    show "int (length docs) \<le> max 0 limit"
    proof (cases "aggregate e w ?p")
      case (Inl f)
      then show ?thesis by (simp add: docs_def)
    next
      case (Inr ds)
      with aggregate_result(1) [OF Inr] show ?thesis by (simp add: docs_def)
    qed
  qed
  have ok: "aggregate e w ?p = Inl OperationFailure \<or> aggregate e w ?p = Inr docs"
    using assms emb
    by (auto simp: search_def Let_def docs_def split: sum.splits failure.splits)
  let ?results = "map to_search_item docs"
  have r: "Inr (w', items) =
      (if int (length ?results) < limit then
         (case find_sorted e w (text_search_query namespace_prefix flt query)
                  (has_query query) offset (limit - int (length ?results)) of
            Inl f \<Rightarrow> Inl f
          | Inr fallback_docs \<Rightarrow>
              Inr (w, fallback_loop limit fallback_docs ?results ({} \<union> key_of ` set docs)))
       else Inr (w, ?results))"
    using assms emb ok vector_loop_plain [OF plain, of s e refresh_ttl w "[]" "{}"]
    by (auto simp: search_def Let_def docs_def split: sum.splits failure.splits)
  show "w' = w"
    using r by (simp split: if_splits sum.splits)
  show "int (length items) \<le> max 0 limit"
  proof (cases "int (length ?results) < limit")
    case True
    with r obtain fallback_docs where
      "items = fallback_loop limit fallback_docs ?results ({} \<union> key_of ` set docs)"
      by (auto split: sum.splits)
    with fallback_loop_length [OF True, of fallback_docs "{} \<union> key_of ` set docs"]
    show ?thesis by (simp add: max_def)
  next
    case False
    with r len show ?thesis by simp
  qed
qed

lemma search_keeps_world:
  assumes "search s e w namespace_prefix query flt limit offset refresh_ttl = Inr (w', items)"
  shows "w' = w"
proof (cases "semantic_enabled s")
  case True
  from search_semantic_result(1) [OF True assms] show ?thesis .
next
  case False
  from text_only_search [OF False] assms show ?thesis by (simp split: sum.splits)
qed

lemma fallback_loop_all:
  "distinct (map key_of docs) \<Longrightarrow> key_of ` set docs \<inter> seen_keys = {} \<Longrightarrow>
   int (length results + length docs) \<le> limit \<Longrightarrow>
   fallback_loop limit docs results seen_keys = results @ map to_search_item docs"
proof (induction docs arbitrary: results seen_keys)
  case Nil
  show ?case by simp
next
  case (Cons d docs)
  from Cons.prems have new: "key_of d \<notin> seen_keys" by auto
  show ?case
  proof (cases "limit \<le> int (length (results @ [to_search_item d]))")
    case True
    with Cons.prems(3) have "length docs = 0" by (simp del: length_0_conv)
    then have "docs = []" by simp
    with new True show ?thesis by (simp add: Let_def)
  next
    case False
    have "fallback_loop limit docs (results @ [to_search_item d]) (insert (key_of d) seen_keys)
            = (results @ [to_search_item d]) @ map to_search_item docs"
      using Cons.prems by (intro Cons.IH) auto
    with new False show ?thesis by (simp add: Let_def)
  qed
qed

lemma find_sorted_length:
  "0 < n \<Longrightarrow> find_sorted e w q b offset n = Inr docs \<Longrightarrow> int (length docs) \<le> n"
  by (auto simp: find_sorted_def cursor_limit_def split: if_splits sum.splits)

lemma find_sorted_cases:
  "offset < 0 \<Longrightarrow> find_sorted e w q b offset n = Inl ValueError"
  "0 \<le> offset \<Longrightarrow> sort_text_score e (filter (matches e q) (collection w)) = Inr docs \<Longrightarrow>
   find_sorted e w q b offset n = Inr (map (project b) (cursor_limit n (drop (nat offset) docs)))"
  "0 \<le> offset \<Longrightarrow> sort_text_score e (filter (matches e q) (collection w)) = Inl f \<Longrightarrow>
   find_sorted e w q b offset n = Inl f"
  by (simp_all add: find_sorted_def)

text \<open>
  Claim C5 says that in semantic mode, when the vector query fails with an operation failure,
  the search does not raise and the fallback text query supplies the results. The handler
  covers the aggregation only. With a negative offset the aggregation fails (here the vector
  index is missing; a negative \<^verbatim>\<open>$skip\<close> would fail it as well), the failure is caught, and
  the fallback query then raises a \<^verbatim>\<open>ValueError\<close> from \<^verbatim>\<open>.skip(offset)\<close>, which leaves the
  search.
\<close>

theorem search_vector_failure_counterexample:
  "semantic_enabled semantic_store
   \<and> aggregate no_vector_env articles_world
        (vector_pipeline semantic_store (demo_embed (query_or_empty (Some ''margin'')))
           [''articles''] None 10 (- 1)) = Inl OperationFailure
   \<and> search semantic_store no_vector_env articles_world [''articles''] (Some ''margin'') None
        10 (- 1) None = Inl ValueError"
  by (simp add: semantic_store_def aggregate_def vector_pipeline_def no_vector_env_def
      search_def find_sorted_def)

text \<open>
  Claim C5, amended: in semantic mode, when the vector query fails with an operation
  failure, the vector phase counts as having returned no document and the state is left
  alone. For a limit that is not positive the search returns the empty list without running
  the fallback query. For a positive limit the fallback query runs and its outcome is the
  outcome of the search: when the offset is not negative and the text query succeeds, the
  search does not raise and returns what the fallback loop makes of the documents of the
  text query, exactly their items when their keys are distinct; a failure of the text query
  leaves the search, and so does the \<^verbatim>\<open>ValueError\<close> of a negative offset.
\<close>

theorem search_vector_failure:
  assumes "semantic_enabled s" and "embedding_fn s = Some emb"
    and "aggregate e w
           (vector_pipeline s (emb (query_or_empty query)) namespace_prefix flt limit offset)
         = Inl OperationFailure"
  shows "(limit \<le> 0 \<longrightarrow>
            search s e w namespace_prefix query flt limit offset refresh_ttl = Inr (w, []))
     \<and> (0 < limit \<longrightarrow>
          search s e w namespace_prefix query flt limit offset refresh_ttl =
            (case find_sorted e w (text_search_query namespace_prefix flt query)
                    (has_query query) offset limit of
               Inl f \<Rightarrow> Inl f
             | Inr fallback_docs \<Rightarrow> Inr (w, fallback_loop limit fallback_docs [] {})))
     \<and> (0 < limit \<and> 0 \<le> offset
          \<and> sort_text_score e
               (filter (matches e (text_search_query namespace_prefix flt query)) (collection w))
              = Inr docs \<longrightarrow>
          search s e w namespace_prefix query flt limit offset refresh_ttl =
            Inr (w, fallback_loop limit
                      (map (project (has_query query))
                         (cursor_limit limit (drop (nat offset) docs))) [] {})
          \<and> (distinct (map key_of (map (project (has_query query))
                                      (cursor_limit limit (drop (nat offset) docs)))) \<longrightarrow>
               search s e w namespace_prefix query flt limit offset refresh_ttl =
                 Inr (w, map to_search_item
                           (map (project (has_query query))
                              (cursor_limit limit (drop (nat offset) docs))))))
     \<and> (0 < limit \<and> offset < 0 \<longrightarrow>
          search s e w namespace_prefix query flt limit offset refresh_ttl = Inl ValueError)"
proof -
  let ?q = "text_search_query namespace_prefix flt query"
  let ?find = "find_sorted e w ?q (has_query query) offset limit"
  have a: "search s e w namespace_prefix query flt limit offset refresh_ttl = Inr (w, [])"
    if "limit \<le> 0"
    using assms that by (simp add: search_def Let_def)
  have b: "search s e w namespace_prefix query flt limit offset refresh_ttl =
            (case ?find of
               Inl f \<Rightarrow> Inl f
             | Inr fallback_docs \<Rightarrow> Inr (w, fallback_loop limit fallback_docs [] {}))"
    if "0 < limit"
    using assms that by (simp add: search_def Let_def)
  have c: "search s e w namespace_prefix query flt limit offset refresh_ttl =
            Inr (w, fallback_loop limit
                      (map (project (has_query query))
                         (cursor_limit limit (drop (nat offset) docs))) [] {})
          \<and> (distinct (map key_of (map (project (has_query query))
                                      (cursor_limit limit (drop (nat offset) docs)))) \<longrightarrow>
               search s e w namespace_prefix query flt limit offset refresh_ttl =
                 Inr (w, map to_search_item
                           (map (project (has_query query))
                              (cursor_limit limit (drop (nat offset) docs)))))"
    if l: "0 < limit" and o: "0 \<le> offset"
      and t: "sort_text_score e (filter (matches e ?q) (collection w)) = Inr docs"
  proof -
    let ?docs = "map (project (has_query query)) (cursor_limit limit (drop (nat offset) docs))"
    have f: "?find = Inr ?docs"
      using find_sorted_cases(2) [OF o t] .
    have r: "search s e w namespace_prefix query flt limit offset refresh_ttl =
               Inr (w, fallback_loop limit ?docs [] {})"
      using b [OF l] f by simp
    have "fallback_loop limit ?docs [] {} = map to_search_item ?docs"
      if "distinct (map key_of ?docs)"
      using that find_sorted_length [OF l f] fallback_loop_all [of ?docs "{}" "[]" limit]
      by simp
    with r show ?thesis by simp
  qed
  have d: "search s e w namespace_prefix query flt limit offset refresh_ttl = Inl ValueError"
    if "0 < limit" and "offset < 0"
    using b [OF that(1)] find_sorted_cases(1) [OF that(2), of e w ?q "has_query query" limit]
    by simp
  from a b c d show ?thesis by blast
qed

theorem search_vector_failure_witness:
  "semantic_enabled semantic_store \<and> embedding_fn semantic_store = Some demo_embed
   \<and> aggregate no_vector_env articles_world
        (vector_pipeline semantic_store (demo_embed (query_or_empty (Some ''margin'')))
           [''articles''] None 10 0) = Inl OperationFailure
   \<and> sort_text_score no_vector_env
        (filter (matches no_vector_env (text_search_query [''articles''] None (Some ''margin'')))
           (collection articles_world)) = Inr [article_doc]
   \<and> search semantic_store no_vector_env articles_world [''articles''] (Some ''margin'') None
        10 0 None
       = Inr (articles_world,
              [\<lparr>item_value = article_a, item_key = uuid_a, item_namespace = [''articles''],
                created_at = Some 1700000000000000, updated_at = Some 1700000000000000,
                item_score = None\<rparr>])"
proof -
  have a: "semantic_enabled semantic_store" "embedding_fn semantic_store = Some demo_embed"
    by (simp_all add: semantic_store_def)
  have b: "aggregate no_vector_env articles_world
        (vector_pipeline semantic_store (demo_embed (query_or_empty (Some ''margin'')))
           [''articles''] None 10 0) = Inl OperationFailure"
    by (simp add: aggregate_def vector_pipeline_def no_vector_env_def)
  have c: "sort_text_score no_vector_env
        (filter (matches no_vector_env (text_search_query [''articles''] None (Some ''margin'')))
           (collection articles_world)) = Inr [article_doc]"
    by (simp add: text_search_query_def namespace_prefix_query_def
        filter_query_def text_query_def no_vector_env_def demo_env_def
        articles_world_def article_doc_def matches_def enumerate_eq_zip)
  note t = search_vector_failure [OF a b, where docs = "[article_doc]" and refresh_ttl = None]
  have "(0::int) < 10 \<and> (0::int) \<le> 0
     \<and> sort_text_score no_vector_env
        (filter (matches no_vector_env (text_search_query [''articles''] None (Some ''margin'')))
           (collection articles_world)) = Inr [article_doc]"
    using c by simp
  with t have "search semantic_store no_vector_env articles_world [''articles'']
        (Some ''margin'') None 10 0 None
       = Inr (articles_world,
              fallback_loop 10
                (map (project (has_query (Some ''margin'')))
                   (cursor_limit 10 (drop (nat 0) [article_doc]))) [] {})"
    by blast
  then have "search semantic_store no_vector_env articles_world [''articles''] (Some ''margin'') None
        10 0 None
       = Inr (articles_world,
              [\<lparr>item_value = article_a, item_key = uuid_a, item_namespace = [''articles''],
                created_at = Some 1700000000000000, updated_at = Some 1700000000000000,
                item_score = None\<rparr>])"
    by (simp add: to_search_item_def key_of_def project_def article_doc_def cursor_limit_def
        has_query_def)
  with a b c show ?thesis by (intro conjI)
qed

section \<open>Search: duplicates and refresh\<close>

lemma article_b_text:
  "get_text_at_path article_b (configured_fields semantic_store) = ''RBI holds the repo rate''"
  by (simp add: get_text_at_path_def article_b_def configured_fields_def semantic_store_def
      article_cfg_def strip_def isspace_def)

lemma two_articles_indexed:
  "collection (two_articles None) =
     [article_doc,
      \<lparr>d_id = Some 1, d_namespace = [''articles''], d_key = uuid_b, d_logical_key = Some ''a1'',
       d_value = article_b, d_created = Some 1700000001000000, d_expiration = None,
       d_indexed = None, d_embedding = Some [23], d_score = None\<rparr>]"
  by (simp add: two_articles_def write_twice_def put_article)
     (simp add: put_def semantic_store_def demo_env_def articles_world_def insert_one_def
       article_b_text [unfolded semantic_store_def] strip_def isspace_def demo_embed_def)

lemma two_articles_unindexed:
  "collection (two_articles (Some (IndexBool False))) =
     [\<lparr>d_id = Some 0, d_namespace = [''articles''], d_key = uuid_a, d_logical_key = Some ''a1'',
       d_value = article_a, d_created = Some 1700000000000000, d_expiration = None,
       d_indexed = Some (IndexBool False), d_embedding = None, d_score = None\<rparr>,
      \<lparr>d_id = Some 1, d_namespace = [''articles''], d_key = uuid_b, d_logical_key = Some ''a1'',
       d_value = article_b, d_created = Some 1700000001000000, d_expiration = None,
       d_indexed = Some (IndexBool False), d_embedding = None, d_score = None\<rparr>]"
  by (simp add: two_articles_def write_twice_def put_def semantic_store_def demo_env_def
      empty_world_def insert_one_def)

text \<open>
  Claim C2 says that a search in semantic mode returns at most \<open>limit\<close> items and no two
  items with the same logical key. The bound holds (\<open>search_semantic_result\<close>). The code
  does not remove duplicates: the loop of the vector phase appends every document without
  looking at the keys seen, and the documents of both phases come out of a projection
  without \<^verbatim>\<open>logical_key\<close>, so that the keys compared are storage keys. After two writes under
  the key \<open>a1\<close>, a search returns both records, from the vector phase when they are indexed
  and from the fallback phase when they are not.
\<close>

theorem search_returns_one_logical_key_twice:
  "map d_logical_key (collection (two_articles None)) = [Some ''a1'', Some ''a1'']
   \<and> found_values (search semantic_store demo_env (two_articles None) [''articles'']
                     (Some ''rate'') None 10 0 None) = [article_a, article_b]
   \<and> found_keys (search semantic_store demo_env (two_articles None) [''articles'']
                   (Some ''rate'') None 10 0 None) = [uuid_a, uuid_b]
   \<and> map d_logical_key (collection (two_articles (Some (IndexBool False))))
       = [Some ''a1'', Some ''a1'']
   \<and> found_values (search semantic_store demo_env (two_articles (Some (IndexBool False)))
                     [''articles''] (Some ''rate'') None 10 0 None) = [article_a, article_b]"
  by (simp add: two_articles_indexed two_articles_unindexed article_doc_def found_values_def
      found_keys_def search_def semantic_store_def aggregate_def vector_pipeline_def
      namespace_prefix_query_def filter_query_def enumerate_eq_zip demo_env_def matches_def
      project_def has_expiration_def to_search_item_def key_of_def find_sorted_def
      text_search_query_def text_query_def has_query_def cursor_limit_def query_or_empty_def
      uuid_a_def uuid_b_def)

lemma put_expiring:
  "put semantic_store demo_env empty_world [''articles''] ''a1'' article_a None
     (Ttl (Some (IntNum 5))) = Inr expiring_world"
  by (simp add: put_def semantic_store_def demo_env_def empty_world_def insert_one_def
      expiring_world_def expiring_doc_def article_a_text [unfolded semantic_store_def]
      strip_def isspace_def demo_embed_def compute_expiration_def expiration_at_def
      in_timedelta_range_def minutes_def timedelta_min_def timedelta_max_def
      datetime_min_def datetime_max_def)

lemma find_update_first:
  assumes "\<And>x. P (f x) = P x"
  shows "find P (update_first P f ds) = map_option f (find P ds)"
  using assms by (induction ds) auto

text \<open>
  A read with \<^verbatim>\<open>refresh_ttl\<close> of a record that carries an expiration, on a store with TTL
  support: when the clock reading plus 10 minutes is an instant, the read returns and the
  record it finds next has this instant as its expiration.
\<close>

lemma get_refresh:
  assumes found: "find_one e (namespace_query ns @ [KeyIs k]) w = Some d"
    and exp: "has_expiration d" and ttl: "ttl_support s"
    and t: "expiration_at e (clock_reads w) (IntNum 10) = Inr t"
  shows "\<exists>w' found. get s e w ns k (Some True) = Inr (w', found)
           \<and> find_one e (namespace_query ns @ [KeyIs k]) w'
               = Some (d\<lparr>d_expiration := Some (Some (utcnow e (clock_reads w) + minutes 10))\<rparr>)"
proof -
  let ?q = "namespace_query ns @ [KeyIs k]"
  let ?f = "\<lambda>x. x\<lparr>d_expiration := Some (Some t)\<rparr>"
  let ?w = "update_one e ?q ?f (w\<lparr>clock_reads := Suc (clock_reads w)\<rparr>)"
  have v: "t = utcnow e (clock_reads w) + minutes 10"
    using t by (auto simp: expiration_at_def in_timedelta_range_def split: if_splits)
  have same: "\<And>x. matches e ?q (?f x) = matches e ?q x"
    by (simp add: matches_def namespace_query_def)
  have g: "get s e w ns k (Some True) = Inr (?w, Some (to_item (?f d)))"
    using found exp ttl t by (simp add: get_def compute_expiration_def)
  have "find_one e ?q ?w = Some (?f d)"
    using found find_update_first [of "matches e ?q" ?f "collection w", OF same]
    by (simp add: find_one_def update_one_def)
  with g v show ?thesis by blast
qed

text \<open>
  Claim C10 says that a read or a search with \<^verbatim>\<open>refresh_ttl\<close>, on a store with TTL support
  and a record that carries an expiration, sets the expiration to 10 minutes from now. A read
  does (\<open>get_refresh\<close>). A search never changes the state (\<open>search_keeps_world\<close>): the
  documents it loops over come out of a projection without \<^verbatim>\<open>expiration\<close>, so the refresh
  is never reached, and the text-only mode has no refresh at all. Here a record written with
  a time-to-live of 5 minutes keeps its expiration through a search with
  \<^verbatim>\<open>refresh_ttl=True\<close>, while the read by storage key moves it to 10 minutes after the
  clock reading.
\<close>

theorem search_refresh_scenario:
  "map d_expiration (collection expiring_world) = [Some (Some 1700000301000000)]
   \<and> found_values (search semantic_store demo_env expiring_world [''articles'']
                     (Some ''margin'') None 10 0 (Some True)) = [article_a]
   \<and> (case search semantic_store demo_env expiring_world [''articles'']
              (Some ''margin'') None 10 0 (Some True) of
         Inl f \<Rightarrow> []
       | Inr (w, items) \<Rightarrow> map d_expiration (collection w))
       = [Some (Some 1700000301000000)]
   \<and> (case get semantic_store demo_env expiring_world [''articles''] uuid_a (Some True) of
         Inl f \<Rightarrow> []
       | Inr (w, found) \<Rightarrow> map d_expiration (collection w))
       = [Some (Some 1700000602000000)]"
  by (simp add: expiring_world_def expiring_doc_def found_values_def
      search_def semantic_store_def aggregate_def vector_pipeline_def
      namespace_prefix_query_def filter_query_def enumerate_eq_zip demo_env_def matches_def
      project_def has_expiration_def to_search_item_def key_of_def find_sorted_def
      text_search_query_def text_query_def has_query_def cursor_limit_def query_or_empty_def
      get_def find_one_def namespace_query_def compute_expiration_def update_one_def
      expiration_at_def in_timedelta_range_def minutes_def timedelta_min_def timedelta_max_def
      datetime_min_def datetime_max_def uuid_a_def)

section \<open>Batches\<close>

lemma batch_loop_acc:
  "batch_loop s e ops w acc =
     (case batch_loop s e ops w [] of
        Inl f \<Rightarrow> Inl f
      | Inr (w', rs) \<Rightarrow> Inr (w', acc @ rs))"
proof (induction ops arbitrary: w acc)
  case Nil
  show ?case by simp
next
  case (Cons op ops)
  show ?case
  proof (cases "dispatch s e w op")
    case (Inl f)
    then show ?thesis by simp
  next
    case (Inr p)
    obtain w1 r where p: "p = (w1, r)" by (cases p)
    show ?thesis
      using Inr p Cons.IH [of w1 "acc @ [r]"] Cons.IH [of w1 "[r]"]
      by (simp split: sum.splits)
  qed
qed

lemma batch_Nil: "batch s e w [] = Inr (w, [])"
  by (simp add: batch_def)

lemma batch_Cons:
  "batch s e w (op # ops) =
     (case dispatch s e w op of
        Inl f \<Rightarrow> Inl f
      | Inr (w1, r) \<Rightarrow>
          (case batch s e w1 ops of
             Inl f \<Rightarrow> Inl f
           | Inr (w2, rs) \<Rightarrow> Inr (w2, r # rs)))"
proof (cases "dispatch s e w op")
  case (Inl f)
  then show ?thesis by (simp add: batch_def)
next
  case (Inr p)
  obtain w1 r where p: "p = (w1, r)" by (cases p)
  show ?thesis
    using Inr p batch_loop_acc [of s e ops w1 "[r]"]
    by (simp add: batch_def split: sum.splits)
qed

lemma batch_append:
  "batch s e w (xs @ ys) =
     (case batch s e w xs of
        Inl f \<Rightarrow> Inl f
      | Inr (w1, rs1) \<Rightarrow>
          (case batch s e w1 ys of
             Inl f \<Rightarrow> Inl f
           | Inr (w2, rs2) \<Rightarrow> Inr (w2, rs1 @ rs2)))"
proof (induction xs arbitrary: w)
  case Nil
  show ?case by (simp add: batch_Nil split: sum.splits)
next
  case (Cons x xs)
  show ?case
    by (simp add: batch_Cons Cons.IH split: sum.splits prod.splits)
qed

lemma batch_length: "batch s e w ops = Inr (w', rs) \<Longrightarrow> length rs = length ops"
proof (induction ops arbitrary: w w' rs)
  case Nil
  then show ?case by (simp add: batch_Nil)
next
  case (Cons op ops)
  from Cons.prems show ?case
    by (auto simp: batch_Cons split: sum.splits prod.splits dest: Cons.IH)
qed

lemma batch_slot:
  assumes b: "batch s e w ops = Inr (w', rs)" and i: "i < length ops"
  shows "\<exists>wi wi'. batch s e w (take i ops) = Inr (wi, take i rs)
           \<and> dispatch s e wi (ops ! i) = Inr (wi', rs ! i)"
proof -
  have ops: "ops = take i ops @ ops ! i # drop (Suc i) ops"
    using i by (simp add: id_take_nth_drop)
  from b have "batch s e w (take i ops @ ops ! i # drop (Suc i) ops) = Inr (w', rs)"
    using ops by simp
  then obtain wi rs1 rs2 where
    1: "batch s e w (take i ops) = Inr (wi, rs1)" and
    2: "batch s e wi (ops ! i # drop (Suc i) ops) = Inr (w', rs2)" and
    3: "rs = rs1 @ rs2"
    by (auto simp: batch_append split: sum.splits prod.splits)
  from 2 obtain wi' r rs3 where
    4: "dispatch s e wi (ops ! i) = Inr (wi', r)" and 5: "rs2 = r # rs3"
    by (auto simp: batch_Cons split: sum.splits prod.splits)
  from batch_length [OF 1] i have l: "length rs1 = i" by simp
  from 3 5 l have "take i rs = rs1" "rs ! i = r" by auto
  with 1 4 show ?thesis by auto
qed

lemma batch_other:
  "batch s e w (xs @ OtherOp # ys) =
     (case batch s e w (xs @ ys) of
        Inl f \<Rightarrow> Inl f
      | Inr (w', rs) \<Rightarrow> Inr (w', take (length xs) rs @ RNone # drop (length xs) rs))"
proof (cases "batch s e w xs")
  case (Inl f)
  then show ?thesis by (simp add: batch_append)
next
  case (Inr p)
  obtain w1 rs1 where p: "p = (w1, rs1)" by (cases p)
  from batch_length Inr p have "length rs1 = length xs" by blast
  with Inr p show ?thesis
    by (simp add: batch_append batch_Cons split: sum.splits prod.splits)
qed

text \<open>
  Claim C7: a batch that returns gives one result per operation, the result at each position
  being the result of the operation at this position, run in the state the operations before
  it have left; a \<^verbatim>\<open>PutOp\<close> without a value is run as a delete; an object that is no
  operation gives \<^verbatim>\<open>None\<close> and leaves the state alone; and putting such an object anywhere
  into a batch changes nothing but the insertion of \<^verbatim>\<open>None\<close> at its position: the batch
  fails or returns as it does without it, with the same state and the same other results.
\<close>

theorem batch_results:
  "(batch s e w ops = Inr (w', results) \<longrightarrow>
      length results = length ops
      \<and> (\<forall>i < length ops. \<exists>wi wi'.
            batch s e w (take i ops) = Inr (wi, take i results)
            \<and> dispatch s e wi (ops ! i) = Inr (wi', results ! i)))
   \<and> dispatch s e w (PutOp ns k None index ttl) = Inr (delete e w ns k, RNone)
   \<and> dispatch s e w OtherOp = Inr (w, RNone)
   \<and> batch s e w (xs @ OtherOp # ys) =
       (case batch s e w (xs @ ys) of
          Inl f \<Rightarrow> Inl f
        | Inr (w2, rs) \<Rightarrow> Inr (w2, take (length xs) rs @ RNone # drop (length xs) rs))"
  using batch_length [of s e w ops w' results] batch_slot [of s e w ops w' results]
    batch_other [of s e w xs ys]
  by simp

lemma demo_batch:
  "batch plain_store demo_env empty_world demo_ops =
     Inr (\<lparr>collection =
             [\<lparr>d_id = Some 0, d_namespace = [''articles''], d_key = uuid_a,
               d_logical_key = Some ''a1'', d_value = article_a,
               d_created = Some 1700000000000000, d_expiration = None, d_indexed = None,
               d_embedding = None, d_score = None\<rparr>],
           next_id = 1, uuid_draws = 1, clock_reads = 1\<rparr>,
          [RNone, RNone, RNone,
           RItem \<lparr>item_value = article_a, item_key = ''a1'', item_namespace = [''articles''],
                  created_at = Some 1700000000000000, updated_at = Some 1700000000000000\<rparr>])"
  by (simp add: batch_def demo_ops_def get_def put_def plain_store_def demo_env_def
      empty_world_def insert_one_def find_one_def namespace_query_def matches_def
      to_item_def key_of_def)

theorem batch_results_witness:
  "batch plain_store demo_env empty_world demo_ops =
     Inr (\<lparr>collection =
             [\<lparr>d_id = Some 0, d_namespace = [''articles''], d_key = uuid_a,
               d_logical_key = Some ''a1'', d_value = article_a,
               d_created = Some 1700000000000000, d_expiration = None, d_indexed = None,
               d_embedding = None, d_score = None\<rparr>],
           next_id = 1, uuid_draws = 1, clock_reads = 1\<rparr>,
          [RNone, RNone, RNone,
           RItem \<lparr>item_value = article_a, item_key = ''a1'', item_namespace = [''articles''],
                  created_at = Some 1700000000000000, updated_at = Some 1700000000000000\<rparr>])
   \<and> length [RNone, RNone, RNone,
           RItem \<lparr>item_value = article_a, item_key = ''a1'', item_namespace = [''articles''],
                  created_at = Some 1700000000000000, updated_at = Some 1700000000000000\<rparr>]
       = length demo_ops
   \<and> dispatch plain_store demo_env empty_world OtherOp = Inr (empty_world, RNone)"
proof -
  let ?w = "\<lparr>collection =
             [\<lparr>d_id = Some 0, d_namespace = [''articles''], d_key = uuid_a,
               d_logical_key = Some ''a1'', d_value = article_a,
               d_created = Some 1700000000000000, d_expiration = None, d_indexed = None,
               d_embedding = None, d_score = None\<rparr>],
           next_id = 1, uuid_draws = 1, clock_reads = 1\<rparr>"
  let ?rs = "[RNone, RNone, RNone,
           RItem \<lparr>item_value = article_a, item_key = ''a1'', item_namespace = [''articles''],
                  created_at = Some 1700000000000000, updated_at = Some 1700000000000000\<rparr>]"
  note t = batch_results [of plain_store demo_env empty_world demo_ops ?w ?rs "[]" "[]" None
      NOT_PROVIDED "[]" "[]"]
  have b: "batch plain_store demo_env empty_world demo_ops = Inr (?w, ?rs)"
    by (rule demo_batch)
  from t b have l: "length ?rs = length demo_ops"
    by blast
  from t have o: "dispatch plain_store demo_env empty_world OtherOp = Inr (empty_world, RNone)"
    by blast
  from b l o show ?thesis
    by (intro conjI)
qed

end
